theory Spec2Isabelle
  imports Complex_Main
begin

section \<open>The ATAN camera model of ATANCamera.cpp\<close>

text \<open>
  The class \<^verbatim>\<open>ATANCamera\<close> is embedded as a record of its member variables and each
  member function as a function from the record (and the arguments) to the updated
  record. The C++ \<^verbatim>\<open>float\<close> and \<^verbatim>\<open>double\<close> values are modelled as real numbers:
  rounding, infinities and NaN are not represented. A quotient of the code whose divisor
  is zero is an IEEE infinity or NaN there and the real number 0 here, so every theorem
  whose statement depends on such a quotient assumes the divisor to be nonzero.
\<close>

subsection \<open>Vectors\<close>

type_synonym Vec2f = "real \<times> real"

text \<open>\<^verbatim>\<open>cv::norm\<close> of a 2-vector is the Euclidean norm.\<close>

definition cv_norm :: "Vec2f \<Rightarrow> real" where
  "cv_norm v = sqrt (fst v * fst v + snd v * snd v)"

definition vscale :: "real \<Rightarrow> Vec2f \<Rightarrow> Vec2f" where
  "vscale a v = (a * fst v, a * snd v)"

definition vadd :: "Vec2f \<Rightarrow> Vec2f \<Rightarrow> Vec2f" where
  "vadd u v = (fst u + fst v, snd u + snd v)"

definition vsub :: "Vec2f \<Rightarrow> Vec2f \<Rightarrow> Vec2f" where
  "vsub u v = (fst u - fst v, snd u - snd v)"

definition vdiv :: "Vec2f \<Rightarrow> real \<Rightarrow> Vec2f" where
  "vdiv v a = (fst v / a, snd v / a)"

text \<open>
  \<^verbatim>\<open>cv::Vec<float, NUMTRACKERCAMPARAMETERS>\<close>: the constructor of the class fills the
  vector with five values, so the parameter count is 5 and the type has exactly five
  components.
\<close>

definition NUMTRACKERCAMPARAMETERS :: nat where
  "NUMTRACKERCAMPARAMETERS = 5"

datatype Vec5f = Vec5f real real real real real

fun vidx :: "Vec5f \<Rightarrow> nat \<Rightarrow> real" where
  "vidx (Vec5f a b c d e) i =
     (if i = 0 then a else if i = 1 then b else if i = 2 then c
      else if i = 3 then d else e)"

text \<open>\<^verbatim>\<open>v[i] += x\<close>; the code only uses indices below 5.\<close>

fun vbump :: "Vec5f \<Rightarrow> nat \<Rightarrow> real \<Rightarrow> Vec5f" where
  "vbump (Vec5f a b c d e) i x =
     Vec5f (if i = 0 then a + x else a) (if i = 1 then b + x else b)
           (if i = 2 then c + x else c) (if i = 3 then d + x else d)
           (if i = 4 then e + x else e)"

fun vplus :: "Vec5f \<Rightarrow> Vec5f \<Rightarrow> Vec5f" where
  "vplus (Vec5f a b c d e) (Vec5f a' b' c' d' e') =
     Vec5f (a + a') (b + b') (c + c') (d + d') (e + e')"

text \<open>\<^verbatim>\<open>v[i] = x\<close>, likewise.\<close>

fun vset :: "Vec5f \<Rightarrow> nat \<Rightarrow> real \<Rightarrow> Vec5f" where
  "vset (Vec5f a b c d e) i x =
     Vec5f (if i = 0 then x else a) (if i = 1 then x else b)
           (if i = 2 then x else c) (if i = 3 then x else d)
           (if i = 4 then x else e)"

definition Vec5f_all :: "real \<Rightarrow> Vec5f" where
  "Vec5f_all x = Vec5f x x x x x"

subsection \<open>The camera object\<close>

record ATANCamera =
  mvImageSize :: Vec2f
  mpvvCameraParams :: Vec5f
  mvFocal :: Vec2f
  mvCenter :: Vec2f
  mvInvFocal :: Vec2f
  mdW :: real
  md2Tan :: real
  mdOneOver2Tan :: real
  mdWinv :: real
  mdDistortionEnabled :: real
  mdLargestRadius :: real
  mdMaxR :: real
  mdOnePixelDist :: real
  mvImplaneTL :: Vec2f
  mvImplaneBR :: Vec2f
  mvUFBLinearInvFocal :: Vec2f
  mvUFBLinearFocal :: Vec2f
  mvUFBLinearCenter :: Vec2f
  mvLastCam :: Vec2f
  mvLastDistCam :: Vec2f
  mvLastIm :: Vec2f
  mdLastR :: real
  mdLastDistR :: real
  mdLastFactor :: real
  mbInvalid :: bool

subsection \<open>The distortion transform\<close>

text \<open>
  Modelled from the spec: \<^verbatim>\<open>rtrans_factor\<close> is declared in ATANCamera.h, which is not
  among the sources. Section 4.2: the factor is 1 if distortion is disabled (\<open>w = 0\<close>) or
  the radius is below 0.001, else \<open>(1/(r\<sqdot>w))\<sqdot>atan(2\<sqdot>r\<sqdot>tan(w/2))\<close>; a pure function of the
  radius and the distortion parameter.
\<close>

definition rtrans_factor :: "real \<Rightarrow> real \<Rightarrow> real" where
  "rtrans_factor w r =
     (if w = 0 \<or> r < 0.001 then 1
      else (1 / (r * w)) * arctan (2 * r * tan (w / 2)))"

text \<open>
  Modelled from the spec: \<^verbatim>\<open>invrtrans\<close> is declared in ATANCamera.h, which is not
  among the sources. Section 4.2: \<open>tan(rd\<sqdot>w) / (2\<sqdot>tan(w/2))\<close> when distortion is enabled,
  else the radius unchanged.
\<close>

definition invrtrans :: "real \<Rightarrow> real \<Rightarrow> real" where
  "invrtrans w r = (if w \<noteq> 0 then tan (r * w) / (2 * tan (w / 2)) else r)"

subsection \<open>Projection and unprojection\<close>

text \<open>
  \<^verbatim>\<open>Project\<close> and \<^verbatim>\<open>UnProject\<close> return the member they have just written
  (\<open>mvLastIm\<close> and \<open>mvLastCam\<close>); the model returns the camera, from which the value is
  read.
\<close>

definition Project :: "ATANCamera \<Rightarrow> Vec2f \<Rightarrow> ATANCamera" where
  "Project c vNormEuc =
     (let c = c\<lparr>mvLastCam := vNormEuc\<rparr>;
          c = c\<lparr>mdLastR := cv_norm (mvLastCam c)\<rparr>;
          c = c\<lparr>mbInvalid := (mdLastR c > mdMaxR c)\<rparr>;
          c = c\<lparr>mdLastFactor := rtrans_factor (mdW c) (mdLastR c)\<rparr>;
          c = c\<lparr>mdLastDistR := mdLastFactor c * mdLastR c\<rparr>;
          c = c\<lparr>mvLastDistCam := vscale (mdLastFactor c) (mvLastCam c)\<rparr>
      in c\<lparr>mvLastIm :=
            (fst (mvCenter c) + fst (mvFocal c) * fst (mvLastDistCam c),
             snd (mvCenter c) + snd (mvFocal c) * snd (mvLastDistCam c))\<rparr>)"

definition UnProject :: "ATANCamera \<Rightarrow> Vec2f \<Rightarrow> ATANCamera" where
  "UnProject c v2Im =
     (let c = c\<lparr>mvLastIm := v2Im\<rparr>;
          c = c\<lparr>mvLastDistCam :=
                ((fst (mvLastIm c) - fst (mvCenter c)) * fst (mvInvFocal c),
                 (snd (mvLastIm c) - snd (mvCenter c)) * snd (mvInvFocal c))\<rparr>;
          c = c\<lparr>mdLastDistR := cv_norm (mvLastDistCam c)\<rparr>;
          c = c\<lparr>mdLastR := invrtrans (mdW c) (mdLastDistR c)\<rparr>;
          dFactor = (if mdLastDistR c > 0.01 then mdLastR c / mdLastDistR c else 1.0);
          c = c\<lparr>mdLastFactor := 1.0 / dFactor\<rparr>
      in c\<lparr>mvLastCam := vscale dFactor (mvLastDistCam c)\<rparr>)"

definition UFBProject :: "ATANCamera \<Rightarrow> Vec2f \<Rightarrow> ATANCamera" where
  "UFBProject c vCam =
     (let c = c\<lparr>mvLastCam := vCam\<rparr>;
          c = c\<lparr>mdLastR := cv_norm vCam\<rparr>;
          c = c\<lparr>mbInvalid := (mdLastR c > mdMaxR c)\<rparr>;
          c = c\<lparr>mdLastFactor := rtrans_factor (mdW c) (mdLastR c)\<rparr>;
          c = c\<lparr>mdLastDistR := mdLastFactor c * mdLastR c\<rparr>;
          c = c\<lparr>mvLastDistCam := vscale (mdLastFactor c) (mvLastCam c)\<rparr>
      in c\<lparr>mvLastIm :=
            (vidx (mpvvCameraParams c) 2 + vidx (mpvvCameraParams c) 0 * fst (mvLastDistCam c),
             vidx (mpvvCameraParams c) 3 + vidx (mpvvCameraParams c) 1 * snd (mvLastDistCam c))\<rparr>)"

definition UFBUnProject :: "ATANCamera \<Rightarrow> Vec2f \<Rightarrow> ATANCamera" where
  "UFBUnProject c v2Im =
     (let c = c\<lparr>mvLastIm := v2Im\<rparr>;
          c = c\<lparr>mvLastDistCam :=
                ((fst (mvLastIm c) - vidx (mpvvCameraParams c) 2) / vidx (mpvvCameraParams c) 0,
                 (snd (mvLastIm c) - vidx (mpvvCameraParams c) 3) / vidx (mpvvCameraParams c) 1)\<rparr>;
          c = c\<lparr>mdLastDistR :=
                sqrt (fst (mvLastDistCam c) * fst (mvLastDistCam c)
                      + snd (mvLastDistCam c) * snd (mvLastDistCam c))\<rparr>;
          c = c\<lparr>mdLastR := invrtrans (mdW c) (mdLastDistR c)\<rparr>;
          dFactor = (if mdLastDistR c > 0.01 then mdLastR c / mdLastDistR c else 1.0);
          c = c\<lparr>mdLastFactor := 1.0 / dFactor\<rparr>
      in c\<lparr>mvLastCam := vscale dFactor (mvLastDistCam c)\<rparr>)"

subsection \<open>Parameter refresh\<close>

text \<open>
  The body of the bounding-box loop of \<^verbatim>\<open>RefreshParams\<close>, for one vertex and both
  values of \<open>j\<close>, and the loop over the vertices.
\<close>

definition bbox_step :: "Vec2f \<Rightarrow> Vec2f \<times> Vec2f \<Rightarrow> Vec2f \<times> Vec2f" where
  "bbox_step v mm =
     (let v2Min = fst mm; v2Max = snd mm;
          v2Min = (if fst v < fst v2Min then fst v else fst v2Min, snd v2Min);
          v2Max = (if fst v > fst v2Max then fst v else fst v2Max, snd v2Max);
          v2Min = (fst v2Min, if snd v < snd v2Min then snd v else snd v2Min);
          v2Max = (fst v2Max, if snd v > snd v2Max then snd v else snd v2Max)
      in (v2Min, v2Max))"

fun bbox_loop :: "Vec2f list \<Rightarrow> Vec2f \<times> Vec2f \<Rightarrow> Vec2f \<times> Vec2f" where
  "bbox_loop [] mm = mm"
| "bbox_loop (v # vs) mm = bbox_loop vs (bbox_step v mm)"

text \<open>
  \<^verbatim>\<open>RefreshParams\<close> is a sequence of five blocks, each writing its own members; they are
  embedded one by one, in the order of the source, and composed.

  First block: focal length and image centre in pixel coordinates, and one over the
  focal length.
\<close>

definition RefreshParams_focal :: "ATANCamera \<Rightarrow> ATANCamera" where
  "RefreshParams_focal c =
     (let P = mpvvCameraParams c;
          c = c\<lparr>mvFocal := (fst (mvImageSize c) * vidx P 0, snd (mvImageSize c) * vidx P 1)\<rparr>;
          c = c\<lparr>mvCenter := (fst (mvImageSize c) * vidx P 2 - 0.5,
                             snd (mvImageSize c) * vidx P 3 - 0.5)\<rparr>
      in c\<lparr>mvInvFocal := (1.0 / fst (mvFocal c), 1.0 / snd (mvFocal c))\<rparr>)"

text \<open>Second block: the radial distortion parameters.\<close>

definition RefreshParams_distortion :: "ATANCamera \<Rightarrow> ATANCamera" where
  "RefreshParams_distortion c =
     (let P = mpvvCameraParams c;
          c = c\<lparr>mdW := vidx P 4\<rparr>
      in if mdW c \<noteq> 0.0 then
           (let c = c\<lparr>md2Tan := 2.0 * tan (mdW c / 2.0)\<rparr>;
                c = c\<lparr>mdOneOver2Tan := 1.0 / md2Tan c\<rparr>;
                c = c\<lparr>mdWinv := 1.0 / mdW c\<rparr>
            in c\<lparr>mdDistortionEnabled := 1.0\<rparr>)
         else
           (let c = c\<lparr>mdWinv := 0.0\<rparr>;
                c = c\<lparr>md2Tan := 0.0\<rparr>
            in c\<lparr>mdDistortionEnabled := 0.0\<rparr>))"

text \<open>Third block: the largest radius in the image and the boundary of model validity.\<close>

definition RefreshParams_radius :: "ATANCamera \<Rightarrow> ATANCamera" where
  "RefreshParams_radius c =
     (let P = mpvvCameraParams c;
          v2 = (max (vidx P 2) (1.0 - vidx P 2) / vidx P 0,
                max (vidx P 3) (1.0 - vidx P 3) / vidx P 1);
          c = c\<lparr>mdLargestRadius := invrtrans (mdW c) (cv_norm v2)\<rparr>
      in c\<lparr>mdMaxR := 1.5 * mdLargestRadius c\<rparr>)"

text \<open>Fourth block: the world radius of one pixel.\<close>

definition RefreshParams_pixel :: "ATANCamera \<Rightarrow> ATANCamera" where
  "RefreshParams_pixel c =
     (let c = UnProject c (vscale 0.5 (mvImageSize c));
          v2Center = mvLastCam c;
          c = UnProject c (vadd (vscale 0.5 (mvImageSize c)) (1, 1));
          v2RootTwoAway = mvLastCam c;
          v2Diff = vsub v2Center v2RootTwoAway
      in c\<lparr>mdOnePixelDist := cv_norm v2Diff / sqrt 2.0\<rparr>)"

text \<open>Fifth block: the linear projection values for the UFB.\<close>

definition RefreshParams_UFB :: "ATANCamera \<Rightarrow> ATANCamera" where
  "RefreshParams_UFB c =
     (let c = UnProject c (- 0.5, - 0.5);
          vert0 = mvLastCam c;
          c = UnProject c (fst (mvImageSize c) - 0.5, - 0.5);
          vert1 = mvLastCam c;
          c = UnProject c (fst (mvImageSize c) - 0.5, snd (mvImageSize c) - 0.5);
          vert2 = mvLastCam c;
          c = UnProject c (- 0.5, snd (mvImageSize c) - 0.5);
          vert3 = mvLastCam c;
          vv2Verts = [vert0, vert1, vert2, vert3];
          mm = bbox_loop vv2Verts (vert0, vert0);
          v2Min = fst mm; v2Max = snd mm;
          c = c\<lparr>mvImplaneTL := v2Min\<rparr>;
          c = c\<lparr>mvImplaneBR := v2Max\<rparr>;
          v2Range = vsub v2Max v2Min;
          c = c\<lparr>mvUFBLinearInvFocal := v2Range\<rparr>;
          c = c\<lparr>mvUFBLinearFocal := (1.0 / fst (mvUFBLinearInvFocal c),
                                     1.0 / snd (mvUFBLinearInvFocal c))\<rparr>
      in c\<lparr>mvUFBLinearCenter := (- 1.0 * fst v2Min * fst (mvUFBLinearFocal c),
                                  - 1.0 * snd v2Min * snd (mvUFBLinearFocal c))\<rparr>)"

definition RefreshParams :: "ATANCamera \<Rightarrow> ATANCamera" where
  "RefreshParams c =
     RefreshParams_UFB (RefreshParams_pixel (RefreshParams_radius
       (RefreshParams_distortion (RefreshParams_focal c))))"

definition SetImageSize :: "ATANCamera \<Rightarrow> Vec2f \<Rightarrow> ATANCamera" where
  "SetImageSize c vImageSize = RefreshParams (c\<lparr>mvImageSize := vImageSize\<rparr>)"

definition UpdateParams :: "ATANCamera \<Rightarrow> Vec5f \<Rightarrow> ATANCamera" where
  "UpdateParams c vUpdate =
     RefreshParams (c\<lparr>mpvvCameraParams := vplus (mpvvCameraParams c) vUpdate\<rparr>)"

definition DisableRadialDistortion :: "ATANCamera \<Rightarrow> ATANCamera" where
  "DisableRadialDistortion c =
     RefreshParams
       (c\<lparr>mpvvCameraParams :=
            vset (mpvvCameraParams c) (NUMTRACKERCAMPARAMETERS - 1) 0.0\<rparr>)"

definition mvDefaultParams :: Vec5f where
  "mvDefaultParams = Vec5f 0.5 (4.0 / 5.0) 0.5 0.5 0.07"

text \<open>
  The constructor: \<open>raw\<close> is the object before construction (its members are not
  initialised by the constructor, and those that \<^verbatim>\<open>RefreshParams\<close> does not write keep
  what \<open>raw\<close> holds), \<open>params\<close> the vector that the configuration store holds under the
  camera's name (\<open>mvDefaultParams\<close> when it has none).
\<close>

definition ATANCamera_ctor :: "ATANCamera \<Rightarrow> Vec5f \<Rightarrow> Vec2f \<Rightarrow> ATANCamera" where
  "ATANCamera_ctor raw params imgsize =
     RefreshParams (raw\<lparr>mpvvCameraParams := params, mvImageSize := imgsize\<rparr>)"

subsection \<open>Derivatives\<close>

text \<open>The 2x2 matrix is the pair of its rows.\<close>

definition GetProjectionDerivs :: "ATANCamera \<Rightarrow> (real \<times> real) \<times> (real \<times> real)" where
  "GetProjectionDerivs c =
     (let k = md2Tan c;
          x = fst (mvLastCam c);
          y = snd (mvLastCam c);
          ru = mdLastR c * mdDistortionEnabled c;
          dFracBydx = (if ru < 0.01 then 0.0
                       else (mdWinv c * k / (1 + k * k * ru * ru) - mdLastFactor c) * x / (ru * ru));
          dFracBydy = (if ru < 0.01 then 0.0
                       else (mdWinv c * k / (1 + k * k * ru * ru) - mdLastFactor c) * y / (ru * ru))
      in ((fst (mvFocal c) * (dFracBydx * x + mdLastFactor c), fst (mvFocal c) * (dFracBydy * x)),
          (snd (mvFocal c) * (dFracBydx * y), snd (mvFocal c) * (dFracBydy * y + mdLastFactor c))))"

text \<open>
  The 2xN matrix of \<^verbatim>\<open>GetCameraParameterDerivs\<close> is the list of its columns; the matrix
  is allocated without being initialised, and \<open>None\<close> is a column not yet written.
\<close>

definition derivs_body ::
  "Vec5f \<Rightarrow> Vec2f \<Rightarrow> Vec2f \<Rightarrow> nat \<Rightarrow> ATANCamera \<times> Vec2f option list
     \<Rightarrow> ATANCamera \<times> Vec2f option list" where
  "derivs_body vNNormal v2Cam v2Out i s =
     (let c = fst s; m = snd s in
      if i = NUMTRACKERCAMPARAMETERS - 1 \<and> mdW c = 0.0 then (c, m)
      else
        (let vNUpdate = vbump (Vec5f_all 0) i 0.001;
             c = UpdateParams c vNUpdate;
             c = Project c v2Cam;
             v2Out_B = mvLastIm c;
             DparamsByDpi = vdiv (vsub v2Out_B v2Out) 0.001;
             m = m[i := Some DparamsByDpi];
             c = c\<lparr>mpvvCameraParams := vNNormal\<rparr>;
             c = RefreshParams c
         in (c, m)))"

fun derivs_loop ::
  "Vec5f \<Rightarrow> Vec2f \<Rightarrow> Vec2f \<Rightarrow> nat list \<Rightarrow> ATANCamera \<times> Vec2f option list
     \<Rightarrow> ATANCamera \<times> Vec2f option list" where
  "derivs_loop vNNormal v2Cam v2Out [] s = s"
| "derivs_loop vNNormal v2Cam v2Out (i # is) s =
     derivs_loop vNNormal v2Cam v2Out is (derivs_body vNNormal v2Cam v2Out i s)"

definition GetCameraParameterDerivs :: "ATANCamera \<Rightarrow> Vec2f option list \<times> ATANCamera" where
  "GetCameraParameterDerivs c =
     (let m2NNumDerivs = replicate NUMTRACKERCAMPARAMETERS None;
          vNNormal = mpvvCameraParams c;
          v2Cam = mvLastCam c;
          c = Project c v2Cam;
          v2Out = mvLastIm c;
          s = derivs_loop vNNormal v2Cam v2Out [0..<NUMTRACKERCAMPARAMETERS] (c, m2NNumDerivs);
          c = fst s; m2NNumDerivs = snd s;
          m2NNumDerivs = (if mdW c = 0.0
                          then m2NNumDerivs[NUMTRACKERCAMPARAMETERS - 1 := Some (0, 0)]
                          else m2NNumDerivs)
      in (m2NNumDerivs, c))"

subsection \<open>A concrete object\<close>

text \<open>
  An object all of whose members are zero, standing for the memory of an object before
  its construction in the concrete instances below.
\<close>

definition blank_camera :: ATANCamera where
  "blank_camera =
     \<lparr>mvImageSize = (0, 0), mpvvCameraParams = Vec5f_all 0, mvFocal = (0, 0),
      mvCenter = (0, 0), mvInvFocal = (0, 0), mdW = 0, md2Tan = 0, mdOneOver2Tan = 0,
      mdWinv = 0, mdDistortionEnabled = 0, mdLargestRadius = 0, mdMaxR = 0,
      mdOnePixelDist = 0, mvImplaneTL = (0, 0), mvImplaneBR = (0, 0),
      mvUFBLinearInvFocal = (0, 0), mvUFBLinearFocal = (0, 0), mvUFBLinearCenter = (0, 0),
      mvLastCam = (0, 0), mvLastDistCam = (0, 0), mvLastIm = (0, 0), mdLastR = 0,
      mdLastDistR = 0, mdLastFactor = 0, mbInvalid = False\<rparr>"

text \<open>The camera that the constructor builds from the default parameters for a 640x480 image.\<close>

definition default_camera :: ATANCamera where
  "default_camera = ATANCamera_ctor blank_camera mvDefaultParams (640, 480)"


subsection \<open>Auxiliary notions\<close>

text \<open>
  The object \<open>c'\<close> is the camera \<open>c\<close> in another state of its last operation: the
  parameters and the derived members that projection and unprojection read are those of
  \<open>c\<close>, the members of the last operation are arbitrary.
\<close>

definition same_camera :: "ATANCamera \<Rightarrow> ATANCamera \<Rightarrow> bool" where
  "same_camera c c' \<longleftrightarrow>
     mpvvCameraParams c' = mpvvCameraParams c \<and> mvFocal c' = mvFocal c
     \<and> mvCenter c' = mvCenter c \<and> mvInvFocal c' = mvInvFocal c \<and> mdW c' = mdW c"


text \<open>
  The states that \<^verbatim>\<open>RefreshParams\<close> leaves when it is run on an object holding the
  parameter vector \<open>P\<close> and the image size \<open>S\<close>.
\<close>

definition refreshed_from :: "Vec5f \<Rightarrow> Vec2f \<Rightarrow> ATANCamera set" where
  "refreshed_from P S = {RefreshParams x | x. mpvvCameraParams x = P \<and> mvImageSize x = S}"

text \<open>
  The object is exactly what \<^verbatim>\<open>UnProject\<close> leaves when called on the image corner
  \<open>(-0.5, height - 0.5)\<close>: the members that \<^verbatim>\<open>UnProject\<close> writes hold the unprojection of
  that corner.
\<close>

definition cache_at_corner :: "ATANCamera \<Rightarrow> bool" where
  "cache_at_corner c \<longleftrightarrow> UnProject c (- 0.5, snd (mvImageSize c) - 0.5) = c"

subsection \<open>The quotients of the distortion computations\<close>

text \<open>
  What the computations divide by is not visible in the values they return. The
  distortion computations are therefore embedded a second time, statement by statement as
  above, with every quotient \<^verbatim>\<open>x / y\<close> of the source taken by \<open>tdiv\<close>, which returns the
  quotient together with its divisor; each function returns its result together with the
  divisors of the quotients it has evaluated, in the order of the source. The result is
  the one of the function above (the lemmas \<open>\<dots>_traced_value\<close> below). A product with a
  stored reciprocal is not a quotient.
\<close>

definition tdiv :: "real \<Rightarrow> real \<Rightarrow> real \<times> real list" where
  "tdiv x y = (x / y, [y])"

text \<open>
  Modelled from the spec: \<^verbatim>\<open>rtrans_factor\<close> (ATANCamera.h, not among the sources) with
  the quotients of the formula of section 4.2, \<open>1/(r\<sqdot>w)\<close> and \<open>w/2\<close>, which are evaluated
  unless distortion is disabled or the radius is below 0.001.
\<close>

definition rtrans_factor_traced :: "real \<Rightarrow> real \<Rightarrow> real \<times> real list" where
  "rtrans_factor_traced w r =
     (if w = 0 \<or> r < 0.001 then (1, [])
      else (let a = tdiv 1 (r * w);
                h = tdiv w 2
            in (fst a * arctan (2 * r * tan (fst h)), snd a @ snd h)))"

text \<open>
  Modelled from the spec: \<^verbatim>\<open>invrtrans\<close> (ATANCamera.h, not among the sources) with the
  quotients of the formula of section 4.2, \<open>w/2\<close> and the quotient by \<open>2\<sqdot>tan(w/2)\<close>, which
  are evaluated when distortion is enabled.
\<close>

definition invrtrans_traced :: "real \<Rightarrow> real \<Rightarrow> real \<times> real list" where
  "invrtrans_traced w r =
     (if w \<noteq> 0
      then (let h = tdiv w 2;
                a = tdiv (tan (r * w)) (2 * tan (fst h))
            in (fst a, snd h @ snd a))
      else (r, []))"

text \<open>
  The second block of \<^verbatim>\<open>RefreshParams\<close>: \<^verbatim>\<open>mdW / 2.0\<close>, \<^verbatim>\<open>1.0 / md2Tan\<close> and
  \<^verbatim>\<open>1.0 / mdW\<close>, in the branch \<^verbatim>\<open>mdW != 0.0\<close>; the other branch assigns constants.
\<close>

definition RefreshParams_distortion_traced :: "ATANCamera \<Rightarrow> ATANCamera \<times> real list" where
  "RefreshParams_distortion_traced c =
     (let P = mpvvCameraParams c;
          c = c\<lparr>mdW := vidx P 4\<rparr>
      in if mdW c \<noteq> 0.0 then
           (let h = tdiv (mdW c) 2.0;
                c = c\<lparr>md2Tan := 2.0 * tan (fst h)\<rparr>;
                a = tdiv 1.0 (md2Tan c);
                c = c\<lparr>mdOneOver2Tan := fst a\<rparr>;
                b = tdiv 1.0 (mdW c);
                c = c\<lparr>mdWinv := fst b\<rparr>
            in (c\<lparr>mdDistortionEnabled := 1.0\<rparr>, snd h @ snd a @ snd b))
         else
           (let c = c\<lparr>mdWinv := 0.0\<rparr>;
                c = c\<lparr>md2Tan := 0.0\<rparr>
            in (c\<lparr>mdDistortionEnabled := 0.0\<rparr>, [])))"

text \<open>\<^verbatim>\<open>Project\<close> divides in \<^verbatim>\<open>rtrans_factor\<close> only.\<close>

definition Project_traced :: "ATANCamera \<Rightarrow> Vec2f \<Rightarrow> ATANCamera \<times> real list" where
  "Project_traced c vNormEuc =
     (let c = c\<lparr>mvLastCam := vNormEuc\<rparr>;
          c = c\<lparr>mdLastR := cv_norm (mvLastCam c)\<rparr>;
          c = c\<lparr>mbInvalid := (mdLastR c > mdMaxR c)\<rparr>;
          f = rtrans_factor_traced (mdW c) (mdLastR c);
          c = c\<lparr>mdLastFactor := fst f\<rparr>;
          c = c\<lparr>mdLastDistR := mdLastFactor c * mdLastR c\<rparr>;
          c = c\<lparr>mvLastDistCam := vscale (mdLastFactor c) (mvLastCam c)\<rparr>
      in (c\<lparr>mvLastIm :=
             (fst (mvCenter c) + fst (mvFocal c) * fst (mvLastDistCam c),
              snd (mvCenter c) + snd (mvFocal c) * snd (mvLastDistCam c))\<rparr>,
          snd f))"

text \<open>
  \<^verbatim>\<open>UnProject\<close>: the quotients of \<^verbatim>\<open>invrtrans\<close>, then \<^verbatim>\<open>mdLastR / mdLastDistR\<close> in the
  branch \<^verbatim>\<open>mdLastDistR > 0.01\<close>, then \<^verbatim>\<open>1.0 / dFactor\<close>.
\<close>

definition UnProject_traced :: "ATANCamera \<Rightarrow> Vec2f \<Rightarrow> ATANCamera \<times> real list" where
  "UnProject_traced c v2Im =
     (let c = c\<lparr>mvLastIm := v2Im\<rparr>;
          c = c\<lparr>mvLastDistCam :=
                ((fst (mvLastIm c) - fst (mvCenter c)) * fst (mvInvFocal c),
                 (snd (mvLastIm c) - snd (mvCenter c)) * snd (mvInvFocal c))\<rparr>;
          c = c\<lparr>mdLastDistR := cv_norm (mvLastDistCam c)\<rparr>;
          i = invrtrans_traced (mdW c) (mdLastDistR c);
          c = c\<lparr>mdLastR := fst i\<rparr>;
          g = (if mdLastDistR c > 0.01 then tdiv (mdLastR c) (mdLastDistR c) else (1.0, []));
          dFactor = fst g;
          l = tdiv 1.0 dFactor;
          c = c\<lparr>mdLastFactor := fst l\<rparr>
      in (c\<lparr>mvLastCam := vscale dFactor (mvLastDistCam c)\<rparr>, snd i @ snd g @ snd l))"

text \<open>
  \<^verbatim>\<open>GetProjectionDerivs\<close>: the two quotients of each of the two derivatives, in the else
  branch.
\<close>

definition GetProjectionDerivs_traced ::
  "ATANCamera \<Rightarrow> ((real \<times> real) \<times> (real \<times> real)) \<times> real list" where
  "GetProjectionDerivs_traced c =
     (let k = md2Tan c;
          x = fst (mvLastCam c);
          y = snd (mvLastCam c);
          ru = mdLastR c * mdDistortionEnabled c;
          dx = (if ru < 0.01 then (0.0, [])
                else (let a = tdiv (mdWinv c * k) (1 + k * k * ru * ru);
                          b = tdiv ((fst a - mdLastFactor c) * x) (ru * ru)
                      in (fst b, snd a @ snd b)));
          dy = (if ru < 0.01 then (0.0, [])
                else (let a = tdiv (mdWinv c * k) (1 + k * k * ru * ru);
                          b = tdiv ((fst a - mdLastFactor c) * y) (ru * ru)
                      in (fst b, snd a @ snd b)));
          dFracBydx = fst dx;
          dFracBydy = fst dy
      in (((fst (mvFocal c) * (dFracBydx * x + mdLastFactor c), fst (mvFocal c) * (dFracBydy * x)),
           (snd (mvFocal c) * (dFracBydx * y), snd (mvFocal c) * (dFracBydy * y + mdLastFactor c))),
          snd dx @ snd dy))"

section \<open>What each operation reads and writes\<close>

subsection \<open>Unprojection\<close>

lemma UnProject_frame:
  "mvImageSize (UnProject c q) = mvImageSize c"
  "mpvvCameraParams (UnProject c q) = mpvvCameraParams c"
  "mvFocal (UnProject c q) = mvFocal c"
  "mvCenter (UnProject c q) = mvCenter c"
  "mvInvFocal (UnProject c q) = mvInvFocal c"
  "mdW (UnProject c q) = mdW c"
  "md2Tan (UnProject c q) = md2Tan c"
  "mdOneOver2Tan (UnProject c q) = mdOneOver2Tan c"
  "mdWinv (UnProject c q) = mdWinv c"
  "mdDistortionEnabled (UnProject c q) = mdDistortionEnabled c"
  "mdLargestRadius (UnProject c q) = mdLargestRadius c"
  "mdMaxR (UnProject c q) = mdMaxR c"
  "mdOnePixelDist (UnProject c q) = mdOnePixelDist c"
  "mbInvalid (UnProject c q) = mbInvalid c"
  by (simp_all add: UnProject_def Let_def)

lemma UnProject_cache:
  "mvLastIm (UnProject c q) = q"
  "mvLastDistCam (UnProject c q) =
     ((fst q - fst (mvCenter c)) * fst (mvInvFocal c),
      (snd q - snd (mvCenter c)) * snd (mvInvFocal c))"
  "mdLastDistR (UnProject c q) = cv_norm (mvLastDistCam (UnProject c q))"
  "mdLastR (UnProject c q) = invrtrans (mdW c) (mdLastDistR (UnProject c q))"
  "mdLastFactor (UnProject c q) =
     1 / (if mdLastDistR (UnProject c q) > 0.01
          then mdLastR (UnProject c q) / mdLastDistR (UnProject c q) else 1)"
  "mvLastCam (UnProject c q) =
     vscale (if mdLastDistR (UnProject c q) > 0.01
             then mdLastR (UnProject c q) / mdLastDistR (UnProject c q) else 1)
       (mvLastDistCam (UnProject c q))"
  by (simp_all add: UnProject_def Let_def)

text \<open>Unprojecting the same pixel again changes nothing.\<close>

lemma UnProject_idem: "UnProject (UnProject c q) q = UnProject c q"
  by (simp add: UnProject_def Let_def split del: if_split cong: if_cong)

text \<open>\<^verbatim>\<open>UnProject\<close> neither reads nor writes the members of the frustum bounds.\<close>

lemma UnProject_update:
  "UnProject (c\<lparr>mvImplaneTL := a\<rparr>) q = (UnProject c q)\<lparr>mvImplaneTL := a\<rparr>"
  "UnProject (c\<lparr>mvImplaneBR := a\<rparr>) q = (UnProject c q)\<lparr>mvImplaneBR := a\<rparr>"
  "UnProject (c\<lparr>mvUFBLinearInvFocal := a\<rparr>) q = (UnProject c q)\<lparr>mvUFBLinearInvFocal := a\<rparr>"
  "UnProject (c\<lparr>mvUFBLinearFocal := a\<rparr>) q = (UnProject c q)\<lparr>mvUFBLinearFocal := a\<rparr>"
  "UnProject (c\<lparr>mvUFBLinearCenter := a\<rparr>) q = (UnProject c q)\<lparr>mvUFBLinearCenter := a\<rparr>"
  by (simp_all add: UnProject_def Let_def split del: if_split cong: if_cong)

lemma UFBUnProject_frame:
  "mvImageSize (UFBUnProject c q) = mvImageSize c"
  "mpvvCameraParams (UFBUnProject c q) = mpvvCameraParams c"
  "mvFocal (UFBUnProject c q) = mvFocal c"
  "mvCenter (UFBUnProject c q) = mvCenter c"
  "mvInvFocal (UFBUnProject c q) = mvInvFocal c"
  "mdW (UFBUnProject c q) = mdW c"
  "mdMaxR (UFBUnProject c q) = mdMaxR c"
  "mbInvalid (UFBUnProject c q) = mbInvalid c"
  by (simp_all add: UFBUnProject_def Let_def)

lemma UFBUnProject_cache:
  "mvLastIm (UFBUnProject c q) = q"
  "mvLastDistCam (UFBUnProject c q) =
     ((fst q - vidx (mpvvCameraParams c) 2) / vidx (mpvvCameraParams c) 0,
      (snd q - vidx (mpvvCameraParams c) 3) / vidx (mpvvCameraParams c) 1)"
  "mdLastDistR (UFBUnProject c q) = cv_norm (mvLastDistCam (UFBUnProject c q))"
  "mdLastR (UFBUnProject c q) = invrtrans (mdW c) (mdLastDistR (UFBUnProject c q))"
  "mdLastFactor (UFBUnProject c q) =
     1 / (if mdLastDistR (UFBUnProject c q) > 0.01
          then mdLastR (UFBUnProject c q) / mdLastDistR (UFBUnProject c q) else 1)"
  "mvLastCam (UFBUnProject c q) =
     vscale (if mdLastDistR (UFBUnProject c q) > 0.01
             then mdLastR (UFBUnProject c q) / mdLastDistR (UFBUnProject c q) else 1)
       (mvLastDistCam (UFBUnProject c q))"
  by (simp_all add: UFBUnProject_def Let_def cv_norm_def)

subsection \<open>Projection\<close>

lemma Project_frame:
  "mvImageSize (Project c p) = mvImageSize c"
  "mpvvCameraParams (Project c p) = mpvvCameraParams c"
  "mvFocal (Project c p) = mvFocal c"
  "mvCenter (Project c p) = mvCenter c"
  "mvInvFocal (Project c p) = mvInvFocal c"
  "mdW (Project c p) = mdW c"
  "md2Tan (Project c p) = md2Tan c"
  "mdOneOver2Tan (Project c p) = mdOneOver2Tan c"
  "mdWinv (Project c p) = mdWinv c"
  "mdDistortionEnabled (Project c p) = mdDistortionEnabled c"
  "mdLargestRadius (Project c p) = mdLargestRadius c"
  "mdMaxR (Project c p) = mdMaxR c"
  by (simp_all add: Project_def Let_def)

lemma Project_cache:
  "mvLastCam (Project c p) = p"
  "mdLastR (Project c p) = cv_norm p"
  "mbInvalid (Project c p) = (cv_norm p > mdMaxR c)"
  "mdLastFactor (Project c p) = rtrans_factor (mdW c) (cv_norm p)"
  "mdLastDistR (Project c p) = rtrans_factor (mdW c) (cv_norm p) * cv_norm p"
  "mvLastDistCam (Project c p) = vscale (rtrans_factor (mdW c) (cv_norm p)) p"
  "mvLastIm (Project c p) =
     (fst (mvCenter c) + fst (mvFocal c) * (rtrans_factor (mdW c) (cv_norm p) * fst p),
      snd (mvCenter c) + snd (mvFocal c) * (rtrans_factor (mdW c) (cv_norm p) * snd p))"
  by (simp_all add: Project_def Let_def vscale_def)


lemma UFBProject_cache:
  "mvLastCam (UFBProject c p) = p"
  "mdLastR (UFBProject c p) = cv_norm p"
  "mbInvalid (UFBProject c p) = (cv_norm p > mdMaxR c)"
  "mdLastFactor (UFBProject c p) = rtrans_factor (mdW c) (cv_norm p)"
  "mvLastDistCam (UFBProject c p) = vscale (rtrans_factor (mdW c) (cv_norm p)) p"
  "mvLastIm (UFBProject c p) =
     (vidx (mpvvCameraParams c) 2
        + vidx (mpvvCameraParams c) 0 * (rtrans_factor (mdW c) (cv_norm p) * fst p),
      vidx (mpvvCameraParams c) 3
        + vidx (mpvvCameraParams c) 1 * (rtrans_factor (mdW c) (cv_norm p) * snd p))"
  by (simp_all add: UFBProject_def Let_def vscale_def)

subsection \<open>Parameter refresh\<close>

lemma RefreshParams_focal_eq:
  "RefreshParams_focal c =
     c\<lparr>mvFocal := (fst (mvImageSize c) * vidx (mpvvCameraParams c) 0,
                   snd (mvImageSize c) * vidx (mpvvCameraParams c) 1),
       mvCenter := (fst (mvImageSize c) * vidx (mpvvCameraParams c) 2 - 0.5,
                    snd (mvImageSize c) * vidx (mpvvCameraParams c) 3 - 0.5),
       mvInvFocal := (1 / (fst (mvImageSize c) * vidx (mpvvCameraParams c) 0),
                      1 / (snd (mvImageSize c) * vidx (mpvvCameraParams c) 1))\<rparr>"
  by (simp add: RefreshParams_focal_def Let_def)

lemma RefreshParams_distortion_eq:
  "RefreshParams_distortion c =
     c\<lparr>mdW := vidx (mpvvCameraParams c) 4,
       md2Tan := 2 * tan (vidx (mpvvCameraParams c) 4 / 2),
       mdOneOver2Tan :=
         (if vidx (mpvvCameraParams c) 4 \<noteq> 0
          then 1 / (2 * tan (vidx (mpvvCameraParams c) 4 / 2)) else mdOneOver2Tan c),
       mdWinv :=
         (if vidx (mpvvCameraParams c) 4 \<noteq> 0 then 1 / vidx (mpvvCameraParams c) 4 else 0),
       mdDistortionEnabled := (if vidx (mpvvCameraParams c) 4 \<noteq> 0 then 1 else 0)\<rparr>"
  by (simp add: RefreshParams_distortion_def Let_def)

lemma RefreshParams_radius_eq:
  "RefreshParams_radius c =
     c\<lparr>mdLargestRadius :=
         invrtrans (mdW c)
           (cv_norm (max (vidx (mpvvCameraParams c) 2) (1 - vidx (mpvvCameraParams c) 2)
                       / vidx (mpvvCameraParams c) 0,
                     max (vidx (mpvvCameraParams c) 3) (1 - vidx (mpvvCameraParams c) 3)
                       / vidx (mpvvCameraParams c) 1)),
       mdMaxR := 1.5 *
         invrtrans (mdW c)
           (cv_norm (max (vidx (mpvvCameraParams c) 2) (1 - vidx (mpvvCameraParams c) 2)
                       / vidx (mpvvCameraParams c) 0,
                     max (vidx (mpvvCameraParams c) 3) (1 - vidx (mpvvCameraParams c) 3)
                       / vidx (mpvvCameraParams c) 1))\<rparr>"
  by (simp add: RefreshParams_radius_def Let_def)

lemma RefreshParams_pixel_frame:
  "mvImageSize (RefreshParams_pixel c) = mvImageSize c"
  "mpvvCameraParams (RefreshParams_pixel c) = mpvvCameraParams c"
  "mvFocal (RefreshParams_pixel c) = mvFocal c"
  "mvCenter (RefreshParams_pixel c) = mvCenter c"
  "mvInvFocal (RefreshParams_pixel c) = mvInvFocal c"
  "mdW (RefreshParams_pixel c) = mdW c"
  "md2Tan (RefreshParams_pixel c) = md2Tan c"
  "mdOneOver2Tan (RefreshParams_pixel c) = mdOneOver2Tan c"
  "mdWinv (RefreshParams_pixel c) = mdWinv c"
  "mdDistortionEnabled (RefreshParams_pixel c) = mdDistortionEnabled c"
  "mdLargestRadius (RefreshParams_pixel c) = mdLargestRadius c"
  "mdMaxR (RefreshParams_pixel c) = mdMaxR c"
  "mbInvalid (RefreshParams_pixel c) = mbInvalid c"
  by (simp_all add: RefreshParams_pixel_def Let_def UnProject_frame)

lemma RefreshParams_UFB_frame:
  "mvImageSize (RefreshParams_UFB c) = mvImageSize c"
  "mpvvCameraParams (RefreshParams_UFB c) = mpvvCameraParams c"
  "mvFocal (RefreshParams_UFB c) = mvFocal c"
  "mvCenter (RefreshParams_UFB c) = mvCenter c"
  "mvInvFocal (RefreshParams_UFB c) = mvInvFocal c"
  "mdW (RefreshParams_UFB c) = mdW c"
  "md2Tan (RefreshParams_UFB c) = md2Tan c"
  "mdOneOver2Tan (RefreshParams_UFB c) = mdOneOver2Tan c"
  "mdWinv (RefreshParams_UFB c) = mdWinv c"
  "mdDistortionEnabled (RefreshParams_UFB c) = mdDistortionEnabled c"
  "mdLargestRadius (RefreshParams_UFB c) = mdLargestRadius c"
  "mdMaxR (RefreshParams_UFB c) = mdMaxR c"
  "mdOnePixelDist (RefreshParams_UFB c) = mdOnePixelDist c"
  "mbInvalid (RefreshParams_UFB c) = mbInvalid c"
  by (simp_all add: RefreshParams_UFB_def Let_def UnProject_frame del: bbox_loop.simps)

lemma RefreshParams_fields:
  "mpvvCameraParams (RefreshParams c) = mpvvCameraParams c"
  "mvImageSize (RefreshParams c) = mvImageSize c"
  "mvFocal (RefreshParams c) =
     (fst (mvImageSize c) * vidx (mpvvCameraParams c) 0,
      snd (mvImageSize c) * vidx (mpvvCameraParams c) 1)"
  "mvCenter (RefreshParams c) =
     (fst (mvImageSize c) * vidx (mpvvCameraParams c) 2 - 0.5,
      snd (mvImageSize c) * vidx (mpvvCameraParams c) 3 - 0.5)"
  "mvInvFocal (RefreshParams c) =
     (1 / (fst (mvImageSize c) * vidx (mpvvCameraParams c) 0),
      1 / (snd (mvImageSize c) * vidx (mpvvCameraParams c) 1))"
  "mdW (RefreshParams c) = vidx (mpvvCameraParams c) 4"
  "md2Tan (RefreshParams c) = 2 * tan (vidx (mpvvCameraParams c) 4 / 2)"
  "mdWinv (RefreshParams c) =
     (if vidx (mpvvCameraParams c) 4 \<noteq> 0 then 1 / vidx (mpvvCameraParams c) 4 else 0)"
  "mdDistortionEnabled (RefreshParams c) = (if vidx (mpvvCameraParams c) 4 \<noteq> 0 then 1 else 0)"
  "mbInvalid (RefreshParams c) = mbInvalid c"
  by (simp_all add: RefreshParams_def RefreshParams_UFB_frame RefreshParams_pixel_frame
        RefreshParams_radius_eq RefreshParams_distortion_eq RefreshParams_focal_eq)

lemma RefreshParams_mdMaxR:
  "mdLargestRadius (RefreshParams c) =
     invrtrans (vidx (mpvvCameraParams c) 4)
       (cv_norm (max (vidx (mpvvCameraParams c) 2) (1 - vidx (mpvvCameraParams c) 2)
                   / vidx (mpvvCameraParams c) 0,
                 max (vidx (mpvvCameraParams c) 3) (1 - vidx (mpvvCameraParams c) 3)
                   / vidx (mpvvCameraParams c) 1))"
  "mdMaxR (RefreshParams c) = 1.5 * mdLargestRadius (RefreshParams c)"
  by (simp_all add: RefreshParams_def RefreshParams_UFB_frame RefreshParams_pixel_frame
        RefreshParams_radius_eq RefreshParams_distortion_eq RefreshParams_focal_eq)

text \<open>
  The last statement of \<^verbatim>\<open>RefreshParams\<close> that touches the members written by
  \<^verbatim>\<open>UnProject\<close> is the unprojection of the fourth vertex.
\<close>

lemma RefreshParams_UFB_last_UnProject:
  "UnProject (RefreshParams_UFB c) (- 0.5, snd (mvImageSize c) - 0.5) = RefreshParams_UFB c"
  by (simp add: RefreshParams_UFB_def Let_def UnProject_update UnProject_frame UnProject_idem
        del: bbox_loop.simps)

lemma RefreshParams_last_UnProject:
  "UnProject (RefreshParams c) (- 0.5, snd (mvImageSize c) - 0.5) = RefreshParams c"
proof -
  let ?d = "RefreshParams_pixel (RefreshParams_radius
              (RefreshParams_distortion (RefreshParams_focal c)))"
  have "mvImageSize ?d = mvImageSize c"
    by (simp add: RefreshParams_pixel_frame RefreshParams_radius_eq
          RefreshParams_distortion_eq RefreshParams_focal_eq)
  then show ?thesis
    using RefreshParams_UFB_last_UnProject [of ?d] by (simp add: RefreshParams_def)
qed

lemma refresh_ops_mbInvalid:
  "mbInvalid (SetImageSize c s) = mbInvalid c"
  "mbInvalid (UpdateParams c u) = mbInvalid c"
  "mbInvalid (DisableRadialDistortion c) = mbInvalid c"
  by (simp_all add: SetImageSize_def UpdateParams_def DisableRadialDistortion_def
        RefreshParams_fields)

subsection \<open>The numeric derivatives\<close>

lemma N_simps: "NUMTRACKERCAMPARAMETERS = 5" "[0..<5] = [0, 1, 2, 3, 4::nat]"
  by (simp_all add: NUMTRACKERCAMPARAMETERS_def upt_rec)

lemma UpdateParams_fields:
  "mpvvCameraParams (UpdateParams c u) = vplus (mpvvCameraParams c) u"
  "mvImageSize (UpdateParams c u) = mvImageSize c"
  "mvFocal (UpdateParams c u) =
     (fst (mvImageSize c) * vidx (vplus (mpvvCameraParams c) u) 0,
      snd (mvImageSize c) * vidx (vplus (mpvvCameraParams c) u) 1)"
  "mvCenter (UpdateParams c u) =
     (fst (mvImageSize c) * vidx (vplus (mpvvCameraParams c) u) 2 - 0.5,
      snd (mvImageSize c) * vidx (vplus (mpvvCameraParams c) u) 3 - 0.5)"
  "mdW (UpdateParams c u) = vidx (vplus (mpvvCameraParams c) u) 4"
  by (simp_all add: UpdateParams_def RefreshParams_fields)

text \<open>
  The pixel that \<^verbatim>\<open>Project\<close> returns after \<^verbatim>\<open>UpdateParams\<close> depends on the parameter
  vector and the image size only.
\<close>

lemma Project_UpdateParams_cong:
  assumes "mpvvCameraParams c1 = mpvvCameraParams c2" and "mvImageSize c1 = mvImageSize c2"
  shows "mvLastIm (Project (UpdateParams c1 u) p) = mvLastIm (Project (UpdateParams c2 u) p)"
  using assms by (simp add: Project_cache UpdateParams_fields)

lemma derivs_body_skip:
  "mdW (fst s) = 0 \<Longrightarrow> derivs_body vN v2Cam v2Out 4 s = s"
  by (simp add: derivs_body_def N_simps)

lemma derivs_body_step:
  assumes "i \<noteq> 4 \<or> mdW (fst s) \<noteq> 0"
  shows "derivs_body vN v2Cam v2Out i s =
     (RefreshParams ((Project (UpdateParams (fst s) (vbump (Vec5f_all 0) i 0.001)) v2Cam)
                       \<lparr>mpvvCameraParams := vN\<rparr>),
      (snd s)[i := Some (vdiv (vsub (mvLastIm (Project (UpdateParams (fst s)
                 (vbump (Vec5f_all 0) i 0.001)) v2Cam)) v2Out) 0.001)])"
  using assms by (auto simp add: derivs_body_def N_simps Let_def)

lemma refreshed_from_fields:
  assumes "c \<in> refreshed_from P S"
  shows "mpvvCameraParams c = P" "mvImageSize c = S" "mdW c = vidx P 4"
    "UnProject c (- 0.5, snd S - 0.5) = c"
  using assms RefreshParams_last_UnProject
  by (auto simp add: refreshed_from_def RefreshParams_fields)

lemma derivs_body_refreshed_from:
  assumes "mvImageSize (fst s) = S" and "i \<noteq> 4 \<or> mdW (fst s) \<noteq> 0"
  shows "fst (derivs_body vN v2Cam v2Out i s) \<in> refreshed_from vN S"
proof -
  let ?x = "(Project (UpdateParams (fst s) (vbump (Vec5f_all 0) i 0.001)) v2Cam)
              \<lparr>mpvvCameraParams := vN\<rparr>"
  have "mpvvCameraParams ?x = vN" by simp
  moreover have "mvImageSize ?x = S"
    using assms(1) by (simp add: Project_frame UpdateParams_fields)
  ultimately have "RefreshParams ?x \<in> refreshed_from vN S"
    unfolding refreshed_from_def by blast
  then show ?thesis
    using derivs_body_step [OF assms(2)] by simp
qed

lemma derivs_body_refreshed_from_keep:
  assumes "fst s \<in> refreshed_from vN S"
  shows "fst (derivs_body vN v2Cam v2Out i s) \<in> refreshed_from vN S"
proof (cases "i \<noteq> 4 \<or> mdW (fst s) \<noteq> 0")
  case True
  then show ?thesis
    using derivs_body_refreshed_from [of s S i] refreshed_from_fields(2) [OF assms] by simp
next
  case False
  then show ?thesis using assms derivs_body_skip [of s] by simp
qed

lemma derivs_loop_refreshed_from_keep:
  "fst s \<in> refreshed_from vN S \<Longrightarrow> fst (derivs_loop vN v2Cam v2Out is s) \<in> refreshed_from vN S"
  by (induction "is" arbitrary: s) (simp_all add: derivs_body_refreshed_from_keep)

lemma GetCameraParameterDerivs_refreshed_from:
  "snd (GetCameraParameterDerivs c) \<in> refreshed_from (mpvvCameraParams c) (mvImageSize c)"
proof -
  let ?P = "mpvvCameraParams c" and ?p = "mvLastCam c"
  let ?c0 = "Project c ?p"
  let ?s0 = "(?c0, replicate NUMTRACKERCAMPARAMETERS (None :: Vec2f option))"
  have "fst (derivs_body ?P ?p (mvLastIm ?c0) 0 ?s0) \<in> refreshed_from ?P (mvImageSize c)"
    by (rule derivs_body_refreshed_from) (simp_all add: Project_frame)
  then have "fst (derivs_loop ?P ?p (mvLastIm ?c0) [0, 1, 2, 3, 4] ?s0)
               \<in> refreshed_from ?P (mvImageSize c)"
    using derivs_loop_refreshed_from_keep [of _ ?P "mvImageSize c" ?p "mvLastIm ?c0" "[1, 2, 3, 4]"]
    by simp
  then show ?thesis
    by (simp add: GetCameraParameterDerivs_def Let_def N_simps)
qed

lemma derivs_body_column:
  assumes "mpvvCameraParams (fst s) = mpvvCameraParams c"
    and "mvImageSize (fst s) = mvImageSize c"
    and "i \<noteq> 4 \<or> mdW (fst s) \<noteq> 0"
  shows "snd (derivs_body vN p out i s) =
     (snd s)[i := Some (vdiv (vsub (mvLastIm (Project (UpdateParams c
                 (vbump (Vec5f_all 0) i 0.001)) p)) out) 0.001)]"
  using derivs_body_step [OF assms(3)] Project_UpdateParams_cong [OF assms(1,2)] by simp

lemma derivs_body_invariant:
  assumes "mpvvCameraParams (fst s) = P" and "mvImageSize (fst s) = S"
  shows "mpvvCameraParams (fst (derivs_body P p out i s)) = P
         \<and> mvImageSize (fst (derivs_body P p out i s)) = S"
proof (cases "i \<noteq> 4 \<or> mdW (fst s) \<noteq> 0")
  case True
  then show ?thesis
    using derivs_body_refreshed_from [of s S i P p out] assms(2) refreshed_from_fields(1,2) by blast
next
  case False
  then show ?thesis using assms derivs_body_skip [of s] by simp
qed

lemma GetCameraParameterDerivs_matrix:
  fixes c :: ATANCamera
  defines "p \<equiv> mvLastCam c"
  defines "out \<equiv> mvLastIm (Project c (mvLastCam c))"
  defines "D \<equiv> \<lambda>i. vdiv (vsub (mvLastIm (Project (UpdateParams c
                      (vbump (Vec5f_all 0) i 0.001)) (mvLastCam c)))
                    (mvLastIm (Project c (mvLastCam c)))) 0.001"
  shows "fst (GetCameraParameterDerivs c) =
     [Some (D 0), Some (D 1), Some (D 2), Some (D 3),
      if vidx (mpvvCameraParams c) 4 = 0 then Some (0, 0) else Some (D 4)]"
proof -
  let ?P = "mpvvCameraParams c" and ?S = "mvImageSize c"
  let ?body = "derivs_body ?P p out"
  define s0 where "s0 = (Project c p, replicate 5 (None :: Vec2f option))"
  define s1 where "s1 = ?body 0 s0"
  define s2 where "s2 = ?body 1 s1"
  define s3 where "s3 = ?body 2 s2"
  define s4 where "s4 = ?body 3 s3"
  define s5 where "s5 = ?body 4 s4"
  have i0: "mpvvCameraParams (fst s0) = ?P \<and> mvImageSize (fst s0) = ?S"
    by (simp add: s0_def Project_frame)
  have i1: "mpvvCameraParams (fst s1) = ?P \<and> mvImageSize (fst s1) = ?S"
    unfolding s1_def using i0 derivs_body_invariant by blast
  have i2: "mpvvCameraParams (fst s2) = ?P \<and> mvImageSize (fst s2) = ?S"
    unfolding s2_def using i1 derivs_body_invariant by blast
  have i3: "mpvvCameraParams (fst s3) = ?P \<and> mvImageSize (fst s3) = ?S"
    unfolding s3_def using i2 derivs_body_invariant by blast
  have i4: "mpvvCameraParams (fst s4) = ?P \<and> mvImageSize (fst s4) = ?S"
    unfolding s4_def using i3 derivs_body_invariant by blast
  have r4: "fst s4 \<in> refreshed_from ?P ?S"
    unfolding s4_def using derivs_body_refreshed_from [of s3 ?S 3 ?P p out] i3 by simp
  have r5: "fst s5 \<in> refreshed_from ?P ?S"
    unfolding s5_def using r4 by (rule derivs_body_refreshed_from_keep)
  have w4: "mdW (fst s4) = vidx ?P 4" using refreshed_from_fields(3) [OF r4] .
  have w5: "mdW (fst s5) = vidx ?P 4" using refreshed_from_fields(3) [OF r5] .
  have m1: "snd s1 = [Some (D 0), None, None, None, None]"
    unfolding s1_def using derivs_body_column [of s0 c 0 ?P p out] i0
    by (simp add: s0_def D_def p_def out_def numeral_eq_Suc)
  have m2: "snd s2 = [Some (D 0), Some (D 1), None, None, None]"
    unfolding s2_def using derivs_body_column [of s1 c 1 ?P p out] i1 m1
    by (simp add: D_def p_def out_def)
  have m3: "snd s3 = [Some (D 0), Some (D 1), Some (D 2), None, None]"
    unfolding s3_def using derivs_body_column [of s2 c 2 ?P p out] i2 m2
    by (simp add: D_def p_def out_def numeral_eq_Suc)
  have m4: "snd s4 = [Some (D 0), Some (D 1), Some (D 2), Some (D 3), None]"
    unfolding s4_def using derivs_body_column [of s3 c 3 ?P p out] i3 m3
    by (simp add: D_def p_def out_def numeral_eq_Suc)
  have m5: "vidx ?P 4 \<noteq> 0 \<Longrightarrow>
              snd s5 = [Some (D 0), Some (D 1), Some (D 2), Some (D 3), Some (D 4)]"
    unfolding s5_def using derivs_body_column [of s4 c 4 ?P p out] i4 m4 w4
    by (simp add: D_def p_def out_def numeral_eq_Suc)
  have m5': "vidx ?P 4 = 0 \<Longrightarrow> s5 = s4"
    unfolding s5_def using derivs_body_skip [of s4] w4 by simp
  have loop: "derivs_loop ?P p out [0..<NUMTRACKERCAMPARAMETERS]
                (Project c p, replicate NUMTRACKERCAMPARAMETERS None) = s5"
    by (simp add: N_simps s5_def s4_def s3_def s2_def s1_def s0_def)
  have "fst (GetCameraParameterDerivs c) =
          (if mdW (fst s5) = 0 then (snd s5)[4 := Some (0, 0)] else snd s5)"
    using loop by (simp add: GetCameraParameterDerivs_def Let_def p_def out_def
          NUMTRACKERCAMPARAMETERS_def)
  then show ?thesis
    using w5 m5 m5' m4 by (simp add: numeral_eq_Suc)
qed

lemma derivs_loop_append:
  "derivs_loop vN p out (xs @ ys) s = derivs_loop vN p out ys (derivs_loop vN p out xs s)"
  by (induction xs arbitrary: s) simp_all

lemma derivs_loop_prefix_refreshed_from:
  assumes "mvImageSize (fst s) = S"
  shows "fst (derivs_loop vN p out [0, 1, 2, 3] s) \<in> refreshed_from vN S"
proof -
  have "fst (derivs_body vN p out 0 s) \<in> refreshed_from vN S"
    using assms by (rule derivs_body_refreshed_from) simp
  then show ?thesis
    using derivs_loop_refreshed_from_keep [of _ vN S p out "[1, 2, 3]"] by simp
qed

subsection \<open>The members after a refresh\<close>

lemma refreshed_from_cache_at_corner:
  "c \<in> refreshed_from P S \<Longrightarrow> cache_at_corner c"
  using refreshed_from_fields(2,4) [of c P S] by (simp add: cache_at_corner_def)

lemma RefreshParams_refreshed_from:
  "RefreshParams c \<in> refreshed_from (mpvvCameraParams c) (mvImageSize c)"
  unfolding refreshed_from_def by blast

lemma RefreshParams_cache_at_corner: "cache_at_corner (RefreshParams c)"
  using RefreshParams_refreshed_from refreshed_from_cache_at_corner by blast

text \<open>
  What the refresh leaves in the members that \<^verbatim>\<open>GetProjectionDerivs\<close> reads depends on
  the parameter vector and the image size only.
\<close>

lemma RefreshParams_cache_cong:
  assumes "mpvvCameraParams c1 = mpvvCameraParams c2" and "mvImageSize c1 = mvImageSize c2"
  shows "mvLastCam (RefreshParams c1) = mvLastCam (RefreshParams c2)"
    and "mdLastR (RefreshParams c1) = mdLastR (RefreshParams c2)"
    and "mdLastFactor (RefreshParams c1) = mdLastFactor (RefreshParams c2)"
    and "mvLastIm (RefreshParams c1) = mvLastIm (RefreshParams c2)"
proof -
  let ?q = "(- 0.5, snd (mvImageSize c2) - 0.5)"
  have e1: "RefreshParams c1 = UnProject (RefreshParams c1) ?q"
    using RefreshParams_last_UnProject [of c1] assms(2) by simp
  have e2: "RefreshParams c2 = UnProject (RefreshParams c2) ?q"
    using RefreshParams_last_UnProject [of c2] by simp
  have d: "mvLastDistCam (UnProject (RefreshParams c1) ?q)
             = mvLastDistCam (UnProject (RefreshParams c2) ?q)"
    using assms by (simp add: UnProject_cache(2) RefreshParams_fields)
  have rd: "mdLastDistR (UnProject (RefreshParams c1) ?q)
             = mdLastDistR (UnProject (RefreshParams c2) ?q)"
    using d by (simp add: UnProject_cache(3))
  have r: "mdLastR (UnProject (RefreshParams c1) ?q)
             = mdLastR (UnProject (RefreshParams c2) ?q)"
    using rd assms by (simp add: UnProject_cache(4) RefreshParams_fields)
  have "mvLastCam (UnProject (RefreshParams c1) ?q) = mvLastCam (UnProject (RefreshParams c2) ?q)"
    using d rd r by (simp add: UnProject_cache(6))
  then show "mvLastCam (RefreshParams c1) = mvLastCam (RefreshParams c2)"
    using e1 e2 by simp
  show "mdLastR (RefreshParams c1) = mdLastR (RefreshParams c2)"
    using r e1 e2 by simp
  have "mdLastFactor (UnProject (RefreshParams c1) ?q)
          = mdLastFactor (UnProject (RefreshParams c2) ?q)"
    using rd r by (simp add: UnProject_cache(5))
  then show "mdLastFactor (RefreshParams c1) = mdLastFactor (RefreshParams c2)"
    using e1 e2 by simp
  have "mvLastIm (UnProject (RefreshParams c1) ?q) = mvLastIm (UnProject (RefreshParams c2) ?q)"
    by (simp add: UnProject_cache(1))
  then show "mvLastIm (RefreshParams c1) = mvLastIm (RefreshParams c2)"
    using e1 e2 by simp
qed

lemma GetProjectionDerivs_cong:
  assumes "md2Tan c1 = md2Tan c2" and "mvLastCam c1 = mvLastCam c2"
    and "mdLastR c1 = mdLastR c2" and "mdDistortionEnabled c1 = mdDistortionEnabled c2"
    and "mdWinv c1 = mdWinv c2" and "mdLastFactor c1 = mdLastFactor c2"
    and "mvFocal c1 = mvFocal c2"
  shows "GetProjectionDerivs c1 = GetProjectionDerivs c2"
  by (simp add: GetProjectionDerivs_def Let_def assms)

lemma GetProjectionDerivs_RefreshParams_cong:
  assumes "mpvvCameraParams c1 = mpvvCameraParams c2" and "mvImageSize c1 = mvImageSize c2"
  shows "GetProjectionDerivs (RefreshParams c1) = GetProjectionDerivs (RefreshParams c2)"
  by (rule GetProjectionDerivs_cong)
     (simp_all add: RefreshParams_cache_cong [OF assms] RefreshParams_fields assms)

subsection \<open>Concrete cameras\<close>

lemma default_camera_params:
  "mpvvCameraParams default_camera = Vec5f 0.5 0.8 0.5 0.5 0.07"
  "mvImageSize default_camera = (640, 480)"
  by (simp_all add: default_camera_def ATANCamera_ctor_def RefreshParams_fields
        mvDefaultParams_def)

lemma cv_norm_zero [simp]: "cv_norm (0, 0) = 0"
  by (simp add: cv_norm_def)

lemma cv_norm_unit [simp]: "cv_norm (1, 0) = 1"
  by (simp add: cv_norm_def)

lemma rtrans_factor_centre [simp]: "rtrans_factor w 0 = 1"
  by (simp add: rtrans_factor_def)

lemma default_camera_fields:
  "mvFocal default_camera = (320, 384)"
  "mvCenter default_camera = (319.5, 239.5)"
  "mvInvFocal default_camera = (1 / 320, 1 / 384)"
  "mdW default_camera = 0.07"
  by (simp_all add: default_camera_def ATANCamera_ctor_def RefreshParams_fields
        mvDefaultParams_def)

lemma arctan_2_tan_neq: "arctan (2 * tan (1 / 2000)) \<noteq> 1 / 1000"
proof
  assume a: "arctan (2 * tan (1 / 2000)) = 1 / 1000"
  let ?t = "tan (1 / 2000 :: real)"
  have pi2: "(1 / 1000 :: real) < pi / 2" "(1 / 2000 :: real) < pi / 2"
    using pi_ge_two by simp_all
  have t: "0 < ?t"
    by (rule tan_gt_zero) (use pi2 in simp_all)
  have c1: "cos (1 / 2000 :: real) \<noteq> 0"
    using cos_gt_zero [of "1 / 2000"] pi2 by simp
  have c2: "cos (2 * (1 / 2000) :: real) \<noteq> 0"
    using cos_gt_zero [of "1 / 1000"] pi2 by simp
  have "2 * ?t = tan (1 / 1000)"
    using tan_arctan [of "2 * ?t"] a by simp
  also have "\<dots> = 2 * ?t / (1 - ?t\<^sup>2)"
    using tan_double [OF c1 c2] by simp
  finally have e: "2 * ?t = 2 * ?t / (1 - ?t\<^sup>2)" .
  have d: "1 - ?t\<^sup>2 \<noteq> 0"
    using e t by auto
  have "2 * ?t * (1 - ?t\<^sup>2) = 2 * ?t"
    using e d by (metis nonzero_divide_eq_eq)
  then have "1 - ?t\<^sup>2 = 1"
    using t by simp
  then show False using t by simp
qed

subsection \<open>The distortion transform and its inverse\<close>

lemma cv_norm_axis: "cv_norm (a, 0) = \<bar>a\<bar>"
  by (simp add: cv_norm_def)








lemma vscale_one: "vscale 1 v = v"
  by (simp add: vscale_def)









lemma same_camera_refl: "same_camera c c"
  by (simp add: same_camera_def)



lemma same_camera_trans: "same_camera a b \<Longrightarrow> same_camera b c \<Longrightarrow> same_camera a c"
  by (simp add: same_camera_def)








subsection \<open>Zero distortion\<close>

lemma UnProject_pinhole:
  assumes "mdW c = 0"
  shows "mdLastR (UnProject c q) = mdLastDistR (UnProject c q)"
    and "mvLastCam (UnProject c q) = mvLastDistCam (UnProject c q)"
    and "(if mdLastDistR (UnProject c q) > 0.01
          then mdLastR (UnProject c q) / mdLastDistR (UnProject c q) else 1) = 1"
proof -
  show r: "mdLastR (UnProject c q) = mdLastDistR (UnProject c q)"
    using assms by (simp add: UnProject_cache(4) invrtrans_def)
  show f: "(if mdLastDistR (UnProject c q) > 0.01
          then mdLastR (UnProject c q) / mdLastDistR (UnProject c q) else 1) = 1"
    using r by simp
  show "mvLastCam (UnProject c q) = mvLastDistCam (UnProject c q)"
    using UnProject_cache(6) [of c q] unfolding f by (simp add: vscale_one)
qed

lemma DisableRadialDistortion_fields:
  "mvFocal (DisableRadialDistortion default_camera) = (320, 384)"
  "mvCenter (DisableRadialDistortion default_camera) = (319.5, 239.5)"
  "mvInvFocal (DisableRadialDistortion default_camera) = (1 / 320, 1 / 384)"
  "mdW (DisableRadialDistortion default_camera) = 0"
  "mpvvCameraParams (DisableRadialDistortion default_camera) = Vec5f 0.5 0.8 0.5 0.5 0"
  by (simp_all add: DisableRadialDistortion_def RefreshParams_fields default_camera_params
        NUMTRACKERCAMPARAMETERS_def)

subsection \<open>The recorded quotients\<close>

lemma rtrans_factor_traced_value: "fst (rtrans_factor_traced w r) = rtrans_factor w r"
  by (simp add: rtrans_factor_traced_def rtrans_factor_def tdiv_def Let_def)

lemma invrtrans_traced_value: "fst (invrtrans_traced w r) = invrtrans w r"
  by (simp add: invrtrans_traced_def invrtrans_def tdiv_def Let_def)

lemma RefreshParams_distortion_traced_value:
  "fst (RefreshParams_distortion_traced c) = RefreshParams_distortion c"
  by (simp add: RefreshParams_distortion_traced_def RefreshParams_distortion_def tdiv_def Let_def)

lemma Project_traced_value: "fst (Project_traced c p) = Project c p"
  by (simp add: Project_traced_def Project_def rtrans_factor_traced_value Let_def)

lemma UnProject_traced_value: "fst (UnProject_traced c q) = UnProject c q"
  by (simp add: UnProject_traced_def UnProject_def invrtrans_traced_value tdiv_def Let_def
        if_distrib [of fst] split del: if_split cong: if_cong)

lemma GetProjectionDerivs_traced_value:
  "fst (GetProjectionDerivs_traced c) = GetProjectionDerivs c"
  by (simp add: GetProjectionDerivs_traced_def GetProjectionDerivs_def tdiv_def Let_def)

lemma UnProject_traced_divisors:
  "snd (UnProject_traced c q) =
     snd (invrtrans_traced (mdW c) (mdLastDistR (UnProject c q)))
     @ (if mdLastDistR (UnProject c q) > 0.01 then [mdLastDistR (UnProject c q)] else [])
     @ [if mdLastDistR (UnProject c q) > 0.01
        then mdLastR (UnProject c q) / mdLastDistR (UnProject c q) else 1]"
  by (simp add: UnProject_traced_def UnProject_def invrtrans_traced_value tdiv_def Let_def)

section \<open>The claims\<close>

text \<open>
  Claim C10. The validity flag is written by \<^verbatim>\<open>Project\<close> and \<^verbatim>\<open>UFBProject\<close> only:
  \<^verbatim>\<open>UnProject\<close> and \<^verbatim>\<open>UFBUnProject\<close> leave it as it is for every pixel, so after an
  unprojection the flag still is the one of the projection before it; the parameter
  refresh and the operations that end with it do not write it either.
\<close>

theorem validity_flag_only_written_by_projection:
  "mbInvalid (UnProject c q) = mbInvalid c
   \<and> mbInvalid (UFBUnProject c q) = mbInvalid c
   \<and> mbInvalid (Project c p) = (cv_norm p > mdMaxR c)
   \<and> mbInvalid (UFBProject c p) = (cv_norm p > mdMaxR c)
   \<and> mbInvalid (UnProject (Project c p) q) = (cv_norm p > mdMaxR c)
   \<and> mbInvalid (UFBUnProject (Project c p) q) = (cv_norm p > mdMaxR c)
   \<and> mbInvalid (UnProject (UFBProject c p) q) = (cv_norm p > mdMaxR c)
   \<and> mbInvalid (UFBUnProject (UFBProject c p) q) = (cv_norm p > mdMaxR c)
   \<and> mbInvalid (RefreshParams c) = mbInvalid c
   \<and> mbInvalid (SetImageSize c s) = mbInvalid c
   \<and> mbInvalid (UpdateParams c u) = mbInvalid c
   \<and> mbInvalid (DisableRadialDistortion c) = mbInvalid c"
  by (simp add: UnProject_frame UFBUnProject_frame Project_cache UFBProject_cache
        RefreshParams_fields refresh_ops_mbInvalid)

text \<open>
  Claim C5. In \<^verbatim>\<open>UnProject\<close> and \<^verbatim>\<open>UFBUnProject\<close> the factor applied to the distorted
  coordinates is the ratio of the undistorted to the distorted radius when the distorted
  radius is strictly greater than 0.01, and exactly 1 when it is at or below 0.01; the
  distorted radius is the norm of the distorted coordinates and the undistorted radius
  its inverse distortion transform. The quotient by the distorted radius is only taken
  in the first case.
\<close>

theorem UnProject_recovery_factor:
  "mvLastCam (UnProject c q) =
     vscale (if mdLastDistR (UnProject c q) > 0.01
             then mdLastR (UnProject c q) / mdLastDistR (UnProject c q) else 1)
       (mvLastDistCam (UnProject c q))
   \<and> mdLastDistR (UnProject c q) = cv_norm (mvLastDistCam (UnProject c q))
   \<and> mdLastR (UnProject c q) = invrtrans (mdW c) (mdLastDistR (UnProject c q))
   \<and> mvLastCam (UFBUnProject c q) =
     vscale (if mdLastDistR (UFBUnProject c q) > 0.01
             then mdLastR (UFBUnProject c q) / mdLastDistR (UFBUnProject c q) else 1)
       (mvLastDistCam (UFBUnProject c q))
   \<and> mdLastDistR (UFBUnProject c q) = cv_norm (mvLastDistCam (UFBUnProject c q))
   \<and> mdLastR (UFBUnProject c q) = invrtrans (mdW c) (mdLastDistR (UFBUnProject c q))"
  using UnProject_cache(3,4,6) [of c q] UFBUnProject_cache(3,4,6) [of c q] by blast

text \<open>
  Claim C9. Every operation that refreshes the parameters (the constructor,
  \<^verbatim>\<open>SetImageSize\<close>, \<^verbatim>\<open>UpdateParams\<close>, \<^verbatim>\<open>DisableRadialDistortion\<close> and the restore steps of
  \<^verbatim>\<open>GetCameraParameterDerivs\<close>) overwrites the members of the last operation that
  \<^verbatim>\<open>UnProject\<close> writes: the refresh unprojects the image centre and the four corners, and
  what it leaves is the unprojection of the corner \<open>(-0.5, height - 0.5)\<close>, whatever point
  was projected before, so that \<^verbatim>\<open>GetProjectionDerivs\<close> is then evaluated at that corner.
\<close>

theorem refresh_overwrites_last_operation_cache:
  "cache_at_corner (RefreshParams c)
   \<and> cache_at_corner (ATANCamera_ctor raw P S)
   \<and> cache_at_corner (SetImageSize c S)
   \<and> cache_at_corner (UpdateParams c u)
   \<and> cache_at_corner (DisableRadialDistortion c)
   \<and> cache_at_corner (snd (GetCameraParameterDerivs c))
   \<and> mvLastIm (RefreshParams c) = (- 0.5, snd (mvImageSize c) - 0.5)
   \<and> mvLastCam (RefreshParams (Project c p))
       = mvLastCam (UnProject (RefreshParams c) (- 0.5, snd (mvImageSize c) - 0.5))
   \<and> GetProjectionDerivs (RefreshParams (Project c p))
       = GetProjectionDerivs (UnProject (RefreshParams c) (- 0.5, snd (mvImageSize c) - 0.5))"
proof -
  have "cache_at_corner (snd (GetCameraParameterDerivs c))"
    using GetCameraParameterDerivs_refreshed_from refreshed_from_cache_at_corner by blast
  moreover have "mvLastIm (RefreshParams c) = (- 0.5, snd (mvImageSize c) - 0.5)"
    using RefreshParams_last_UnProject [of c] UnProject_cache(1) by metis
  moreover have "mvLastCam (RefreshParams (Project c p)) = mvLastCam (RefreshParams c)"
    by (rule RefreshParams_cache_cong) (simp_all add: Project_frame)
  moreover have "GetProjectionDerivs (RefreshParams (Project c p))
                   = GetProjectionDerivs (RefreshParams c)"
    by (rule GetProjectionDerivs_RefreshParams_cong) (simp_all add: Project_frame)
  ultimately show ?thesis
    using RefreshParams_last_UnProject [of c]
    by (simp add: RefreshParams_cache_at_corner ATANCamera_ctor_def SetImageSize_def
          UpdateParams_def DisableRadialDistortion_def)
qed

text \<open>
  Claim C7. When the distortion parameter is 0, \<^verbatim>\<open>GetCameraParameterDerivs\<close> skips the
  perturbation of the last parameter (the loop over all five indices does what the loop
  over the first four does) and the last column of the matrix it returns is zero in both
  rows.
\<close>

theorem GetCameraParameterDerivs_zero_column:
  assumes "vidx (mpvvCameraParams c) (NUMTRACKERCAMPARAMETERS - 1) = 0"
  shows "fst (GetCameraParameterDerivs c) ! (NUMTRACKERCAMPARAMETERS - 1) = Some (0, 0)
    \<and> length (fst (GetCameraParameterDerivs c)) = NUMTRACKERCAMPARAMETERS
    \<and> derivs_loop (mpvvCameraParams c) (mvLastCam c) (mvLastIm (Project c (mvLastCam c)))
          [0..<NUMTRACKERCAMPARAMETERS]
          (Project c (mvLastCam c), replicate NUMTRACKERCAMPARAMETERS None)
        = derivs_loop (mpvvCameraParams c) (mvLastCam c) (mvLastIm (Project c (mvLastCam c)))
          [0..<NUMTRACKERCAMPARAMETERS - 1]
          (Project c (mvLastCam c), replicate NUMTRACKERCAMPARAMETERS None)"
proof -
  let ?P = "mpvvCameraParams c" and ?p = "mvLastCam c"
  let ?out = "mvLastIm (Project c ?p)"
  let ?s0 = "(Project c ?p, replicate NUMTRACKERCAMPARAMETERS (None :: Vec2f option))"
  let ?s4 = "derivs_loop ?P ?p ?out [0, 1, 2, 3] ?s0"
  have w: "vidx ?P 4 = 0" using assms by (simp add: NUMTRACKERCAMPARAMETERS_def)
  have "fst ?s4 \<in> refreshed_from ?P (mvImageSize c)"
    by (rule derivs_loop_prefix_refreshed_from) (simp add: Project_frame)
  then have "mdW (fst ?s4) = 0"
    using refreshed_from_fields(3) w by metis
  then have "derivs_body ?P ?p ?out 4 ?s4 = ?s4"
    by (rule derivs_body_skip)
  moreover have "derivs_loop ?P ?p ?out ([0, 1, 2, 3] @ [4]) ?s0
                   = derivs_body ?P ?p ?out 4 ?s4"
    unfolding derivs_loop_append by simp
  ultimately have skip: "derivs_loop ?P ?p ?out [0, 1, 2, 3, 4] ?s0 = ?s4"
    by simp
  have idx: "[0..<NUMTRACKERCAMPARAMETERS] = [0, 1, 2, 3, 4]"
    "[0..<NUMTRACKERCAMPARAMETERS - 1] = [0, 1, 2, 3]"
    by (simp_all add: NUMTRACKERCAMPARAMETERS_def upt_rec)
  have n: "NUMTRACKERCAMPARAMETERS - 1 = 4"
    by (simp add: NUMTRACKERCAMPARAMETERS_def)
  have "fst (GetCameraParameterDerivs c) ! 4 = Some (0, 0)"
    using w by (simp add: GetCameraParameterDerivs_matrix)
  moreover have "length (fst (GetCameraParameterDerivs c)) = NUMTRACKERCAMPARAMETERS"
    by (simp add: GetCameraParameterDerivs_matrix NUMTRACKERCAMPARAMETERS_def)
  moreover have "derivs_loop ?P ?p ?out [0..<NUMTRACKERCAMPARAMETERS] ?s0
                   = derivs_loop ?P ?p ?out [0..<NUMTRACKERCAMPARAMETERS - 1] ?s0"
    unfolding idx using skip .
  ultimately show ?thesis
    unfolding n by blast
qed

theorem GetCameraParameterDerivs_zero_column_witness:
  "vidx (mpvvCameraParams (DisableRadialDistortion default_camera))
     (NUMTRACKERCAMPARAMETERS - 1) = 0
   \<and> fst (GetCameraParameterDerivs (DisableRadialDistortion default_camera)) ! 4 = Some (0, 0)"
proof -
  have h: "vidx (mpvvCameraParams (DisableRadialDistortion default_camera))
             (NUMTRACKERCAMPARAMETERS - 1) = 0"
    by (simp add: DisableRadialDistortion_def RefreshParams_fields default_camera_params
          NUMTRACKERCAMPARAMETERS_def)
  show ?thesis
    using h GetCameraParameterDerivs_zero_column [OF h]
    by (simp add: NUMTRACKERCAMPARAMETERS_def)
qed

text \<open>
  Claim C6, as amended. \<^verbatim>\<open>GetCameraParameterDerivs\<close> restores the parameter state: the
  parameter vector and the image size after the call are those at entry, and the object
  is one that \<^verbatim>\<open>RefreshParams\<close> has left from that vector. Each column \<open>i\<close> of the matrix,
  except the last one when the distortion parameter is 0, is the projection of the cached
  point under the parameter vector with component \<open>i\<close> perturbed by 0.001, minus the
  baseline projection, divided by 0.001.
\<close>

theorem GetCameraParameterDerivs_restores_parameters:
  "mpvvCameraParams (snd (GetCameraParameterDerivs c)) = mpvvCameraParams c
   \<and> mvImageSize (snd (GetCameraParameterDerivs c)) = mvImageSize c
   \<and> snd (GetCameraParameterDerivs c) \<in> refreshed_from (mpvvCameraParams c) (mvImageSize c)
   \<and> (\<forall>i < NUMTRACKERCAMPARAMETERS.
        \<not> (i = NUMTRACKERCAMPARAMETERS - 1 \<and> vidx (mpvvCameraParams c) i = 0) \<longrightarrow>
        fst (GetCameraParameterDerivs c) ! i =
          Some (vdiv (vsub (mvLastIm (Project (UpdateParams c (vbump (Vec5f_all 0) i 0.001))
                                        (mvLastCam c)))
                           (mvLastIm (Project c (mvLastCam c)))) 0.001))"
proof -
  have r: "snd (GetCameraParameterDerivs c) \<in> refreshed_from (mpvvCameraParams c) (mvImageSize c)"
    by (rule GetCameraParameterDerivs_refreshed_from)
  have col: "fst (GetCameraParameterDerivs c) ! i =
          Some (vdiv (vsub (mvLastIm (Project (UpdateParams c (vbump (Vec5f_all 0) i 0.001))
                                        (mvLastCam c)))
                           (mvLastIm (Project c (mvLastCam c)))) 0.001)"
    if "i < 5" and "\<not> (i = 4 \<and> vidx (mpvvCameraParams c) i = 0)" for i
  proof -
    have "i = 0 \<or> i = 1 \<or> i = 2 \<or> i = 3 \<or> i = 4"
      using that(1) by arith
    then show ?thesis
      using that(2) by (elim disjE) (simp_all add: GetCameraParameterDerivs_matrix)
  qed
  have cols: "\<forall>i < NUMTRACKERCAMPARAMETERS.
        \<not> (i = NUMTRACKERCAMPARAMETERS - 1 \<and> vidx (mpvvCameraParams c) i = 0) \<longrightarrow>
        fst (GetCameraParameterDerivs c) ! i =
          Some (vdiv (vsub (mvLastIm (Project (UpdateParams c (vbump (Vec5f_all 0) i 0.001))
                                        (mvLastCam c)))
                           (mvLastIm (Project c (mvLastCam c)))) 0.001)"
    using col by (simp add: NUMTRACKERCAMPARAMETERS_def)
  show ?thesis
    using r refreshed_from_fields(1,2) [OF r] cols by blast
qed

theorem GetCameraParameterDerivs_restores_parameters_witness:
  "(2::nat) < NUMTRACKERCAMPARAMETERS
   \<and> \<not> ((2::nat) = NUMTRACKERCAMPARAMETERS - 1
          \<and> vidx (mpvvCameraParams (Project default_camera (0, 0))) 2 = 0)
   \<and> mpvvCameraParams (snd (GetCameraParameterDerivs (Project default_camera (0, 0))))
       = Vec5f 0.5 0.8 0.5 0.5 0.07
   \<and> fst (GetCameraParameterDerivs (Project default_camera (0, 0))) ! 2 = Some (640, 0)"
proof -
  let ?c = "Project default_camera (0, 0)"
  have h1: "(2::nat) < NUMTRACKERCAMPARAMETERS"
    and h2: "\<not> ((2::nat) = NUMTRACKERCAMPARAMETERS - 1 \<and> vidx (mpvvCameraParams ?c) 2 = 0)"
    by (simp_all add: NUMTRACKERCAMPARAMETERS_def)
  have "fst (GetCameraParameterDerivs ?c) ! 2 =
          Some (vdiv (vsub (mvLastIm (Project (UpdateParams ?c (vbump (Vec5f_all 0) 2 0.001))
                                        (mvLastCam ?c)))
                           (mvLastIm (Project ?c (mvLastCam ?c)))) 0.001)"
    using GetCameraParameterDerivs_restores_parameters [of ?c] h1 h2 by blast
  moreover have "mpvvCameraParams (snd (GetCameraParameterDerivs ?c)) = Vec5f 0.5 0.8 0.5 0.5 0.07"
    using GetCameraParameterDerivs_restores_parameters [of ?c]
    by (simp add: Project_frame default_camera_params)
  ultimately show ?thesis
    using h1 h2
    by (simp add: Project_cache Project_frame UpdateParams_fields default_camera_params
          default_camera_fields Vec5f_all_def vdiv_def vsub_def)
qed

text \<open>
  The claim C6 as it is stated, with every column a finite difference for every starting
  parameter vector, fails on the last column when the distortion parameter is 0: the
  column is zero, and the finite difference is not.
\<close>

theorem last_column_not_finite_difference_counterexample:
  "fst (GetCameraParameterDerivs (Project (DisableRadialDistortion default_camera) (1, 0))) ! 4
   \<noteq> Some (vdiv (vsub
          (mvLastIm (Project
             (UpdateParams (Project (DisableRadialDistortion default_camera) (1, 0))
                (vbump (Vec5f_all 0) 4 0.001))
             (mvLastCam (Project (DisableRadialDistortion default_camera) (1, 0)))))
          (mvLastIm (Project (Project (DisableRadialDistortion default_camera) (1, 0))
             (mvLastCam (Project (DisableRadialDistortion default_camera) (1, 0))))))
        0.001)"
proof -
  let ?d = "DisableRadialDistortion default_camera"
  let ?c = "Project ?d (1, 0)"
  have P: "mpvvCameraParams ?d = Vec5f 0.5 0.8 0.5 0.5 0" "mvImageSize ?d = (640, 480)"
    by (simp_all add: DisableRadialDistortion_def RefreshParams_fields default_camera_params
          NUMTRACKERCAMPARAMETERS_def)
  have F: "mvFocal ?d = (320, 384)" "mvCenter ?d = (319.5, 239.5)" "mdW ?d = 0"
    by (simp_all add: DisableRadialDistortion_def RefreshParams_fields default_camera_params
          NUMTRACKERCAMPARAMETERS_def)
  have col: "fst (GetCameraParameterDerivs ?c) ! 4 = Some (0, 0)"
    by (simp add: GetCameraParameterDerivs_matrix Project_frame P)
  have base: "mvLastIm (Project ?c (mvLastCam ?c)) = (639.5, 239.5)"
    by (simp add: Project_cache Project_frame F rtrans_factor_def)
  have pert: "mvLastIm (Project (UpdateParams ?c (vbump (Vec5f_all 0) 4 0.001)) (mvLastCam ?c))
          = (319.5 + 320 * (1000 * arctan (2 * tan (1 / 2000))), 239.5)"
    by (simp add: Project_cache Project_frame UpdateParams_fields P Vec5f_all_def
          rtrans_factor_def)
  have "vdiv (vsub (319.5 + 320 * (1000 * arctan (2 * tan (1 / 2000))), 239.5) (639.5, 239.5))
          0.001 \<noteq> (0, 0)"
    using arctan_2_tan_neq by (simp add: vdiv_def vsub_def)
  then show ?thesis
    unfolding col base pert by simp
qed




text \<open>
  Claim C2. On an object whose distortion members are those that the refresh computes
  from \<open>w\<close>, \<^verbatim>\<open>GetProjectionDerivs\<close> returns, from the cached coordinates \<open>x\<close>, \<open>y\<close>, the
  cached factor, \<open>k = 2 tan (w/2)\<close> and \<open>ru\<close> the cached undistorted radius times the
  distortion-enabled flag, the matrix with rows
  \<open>(fx (dFdx x + factor), fx (dFdy x))\<close> and \<open>(fy (dFdx y), fy (dFdy y + factor))\<close>, where
  \<open>dFdx = dFdy = 0\<close> when \<open>ru < 0.01\<close> and otherwise
  \<open>dFdx = ((1/w) k / (1 + k\<^sup>2 ru\<^sup>2) - factor) x / ru\<^sup>2\<close>, and likewise \<open>dFdy\<close> with \<open>y\<close>.
\<close>

theorem GetProjectionDerivs_formula:
  assumes "md2Tan c = 2 * tan (mdW c / 2)"
    and "mdWinv c = (if mdW c \<noteq> 0 then 1 / mdW c else 0)"
    and "mdDistortionEnabled c = (if mdW c \<noteq> 0 then 1 else 0)"
  shows "GetProjectionDerivs c =
     (let x = fst (mvLastCam c); y = snd (mvLastCam c);
          factor = mdLastFactor c;
          k = 2 * tan (mdW c / 2);
          ru = mdLastR c * mdDistortionEnabled c;
          dFdx = (if ru < 0.01 then 0
                  else ((1 / mdW c) * k / (1 + k\<^sup>2 * ru\<^sup>2) - factor) * x / ru\<^sup>2);
          dFdy = (if ru < 0.01 then 0
                  else ((1 / mdW c) * k / (1 + k\<^sup>2 * ru\<^sup>2) - factor) * y / ru\<^sup>2)
      in ((fst (mvFocal c) * (dFdx * x + factor), fst (mvFocal c) * (dFdy * x)),
          (snd (mvFocal c) * (dFdx * y), snd (mvFocal c) * (dFdy * y + factor))))"
  using assms by (simp add: GetProjectionDerivs_def Let_def power2_eq_square mult.assoc)

theorem GetProjectionDerivs_formula_witness:
  "md2Tan (Project default_camera (0, 0)) = 2 * tan (mdW (Project default_camera (0, 0)) / 2)
   \<and> mdWinv (Project default_camera (0, 0)) =
       (if mdW (Project default_camera (0, 0)) \<noteq> 0
        then 1 / mdW (Project default_camera (0, 0)) else 0)
   \<and> mdDistortionEnabled (Project default_camera (0, 0)) =
       (if mdW (Project default_camera (0, 0)) \<noteq> 0 then 1 else 0)
   \<and> GetProjectionDerivs (Project default_camera (0, 0)) = ((320, 0), (0, 384))"
proof -
  let ?c = "Project default_camera (0, 0)"
  have h: "md2Tan ?c = 2 * tan (mdW ?c / 2)"
    "mdWinv ?c = (if mdW ?c \<noteq> 0 then 1 / mdW ?c else 0)"
    "mdDistortionEnabled ?c = (if mdW ?c \<noteq> 0 then 1 else 0)"
    by (simp_all add: Project_frame default_camera_def ATANCamera_ctor_def RefreshParams_fields)
  have "GetProjectionDerivs ?c = ((320, 0), (0, 384))"
    using GetProjectionDerivs_formula [OF h]
    by (simp add: Let_def Project_cache Project_frame default_camera_fields)
  then show ?thesis using h by blast
qed

text \<open>
  Claim C3. After a refresh with nonzero normalized focal lengths, the largest radius is
  the inverse distortion transform of the norm of the corner
  \<open>(max(cx, 1 - cx)/fx, max(cy, 1 - cy)/fy)\<close> and the maximum valid radius is 1.5 times
  it; \<^verbatim>\<open>Project\<close> sets the flag to invalid if and only if the radius of the point is
  strictly greater than the maximum valid radius, so a point exactly at that radius is
  not flagged. Projection and unprojection leave the maximum valid radius as it is.
\<close>

theorem Project_validity_flag:
  assumes "vidx (mpvvCameraParams c0) 0 \<noteq> 0" and "vidx (mpvvCameraParams c0) 1 \<noteq> 0"
  shows "mdLargestRadius (RefreshParams c0) =
           invrtrans (vidx (mpvvCameraParams c0) 4)
             (cv_norm (max (vidx (mpvvCameraParams c0) 2) (1 - vidx (mpvvCameraParams c0) 2)
                         / vidx (mpvvCameraParams c0) 0,
                       max (vidx (mpvvCameraParams c0) 3) (1 - vidx (mpvvCameraParams c0) 3)
                         / vidx (mpvvCameraParams c0) 1))
    \<and> mdMaxR (RefreshParams c0) = 1.5 * mdLargestRadius (RefreshParams c0)
    \<and> (mbInvalid (Project (RefreshParams c0) p) \<longleftrightarrow> cv_norm p > mdMaxR (RefreshParams c0))
    \<and> (cv_norm p = mdMaxR (RefreshParams c0) \<longrightarrow> \<not> mbInvalid (Project (RefreshParams c0) p))
    \<and> mdMaxR (Project c p) = mdMaxR c \<and> mdMaxR (UnProject c q) = mdMaxR c
    \<and> (mbInvalid (Project c p) \<longleftrightarrow> cv_norm p > mdMaxR c)"
  using RefreshParams_mdMaxR [of c0]
  by (simp add: Project_cache Project_frame UnProject_frame)

theorem Project_validity_flag_witness:
  "vidx (Vec5f (5 / 6) (5 / 8) 0.5 0.5 0) 0 \<noteq> 0
   \<and> vidx (Vec5f (5 / 6) (5 / 8) 0.5 0.5 0) 1 \<noteq> 0
   \<and> mdMaxR (ATANCamera_ctor blank_camera (Vec5f (5 / 6) (5 / 8) 0.5 0.5 0) (640, 480)) = 1.5
   \<and> cv_norm (1.5, 0) = 1.5
   \<and> \<not> mbInvalid
         (Project (ATANCamera_ctor blank_camera (Vec5f (5 / 6) (5 / 8) 0.5 0.5 0) (640, 480))
            (1.5, 0))
   \<and> mbInvalid
         (Project (ATANCamera_ctor blank_camera (Vec5f (5 / 6) (5 / 8) 0.5 0.5 0) (640, 480))
            (2, 0))"
proof -
  let ?c0 = "blank_camera\<lparr>mpvvCameraParams := Vec5f (5 / 6) (5 / 8) 0.5 0.5 0,
                            mvImageSize := (640, 480)\<rparr>"
  have h: "vidx (mpvvCameraParams ?c0) 0 \<noteq> 0" "vidx (mpvvCameraParams ?c0) 1 \<noteq> 0"
    by simp_all
  have n: "cv_norm (max (1 / 2) (1 - 1 / 2) / (5 / 6), max (1 / 2) (1 - 1 / 2) / (5 / 8))
             = (1::real)"
  proof -
    have "(3 / 5) * (3 / 5) + (4 / 5) * (4 / 5) = (1::real)" by simp
    then show ?thesis by (simp add: cv_norm_def)
  qed
  have m: "cv_norm (1.5, 0) = 1.5" "cv_norm (2, 0) = 2"
    by (simp_all add: cv_norm_axis)
  note A = Project_validity_flag [OF h, of "(1.5, 0)" blank_camera "(0, 0)"]
  note B = Project_validity_flag [OF h, of "(2, 0)" blank_camera "(0, 0)"]
  have r: "mdMaxR (RefreshParams ?c0) = 1.5"
    using A n by (simp add: invrtrans_def)
  have "\<not> mbInvalid (Project (RefreshParams ?c0) (1.5, 0))"
    using A r m by simp
  moreover have "mbInvalid (Project (RefreshParams ?c0) (2, 0))"
    using B r m by simp
  ultimately show ?thesis
    using r m by (simp add: ATANCamera_ctor_def)
qed

text \<open>
  Claim C4. When the distortion parameter of the object is 0, \<^verbatim>\<open>Project\<close> is the affine
  map \<open>centre + focal \<sqdot> p\<close>, \<^verbatim>\<open>UnProject\<close> is \<open>(q - centre) \<sqdot> (1/focal)\<close>, which is its
  inverse when the focal lengths are not zero, and the distortion computations evaluate
  no quotient with a zero divisor: \<^verbatim>\<open>Project\<close>, the distortion transform and its inverse
  and, with the flag at 0, \<^verbatim>\<open>GetProjectionDerivs\<close> evaluate no quotient at all,
  \<^verbatim>\<open>UnProject\<close> divides by nonzero numbers only, and the refresh of a parameter vector
  with \<open>w = 0\<close> sets the distortion members without evaluating a quotient, so \<open>1/w\<close> is
  not evaluated. The functions with recorded quotients return the results of the plain
  ones.
\<close>

theorem zero_distortion_is_pinhole:
  assumes "mdW c = 0"
  shows "mvLastIm (Project c p) =
           (fst (mvCenter c) + fst (mvFocal c) * fst p, snd (mvCenter c) + snd (mvFocal c) * snd p)
    \<and> mvLastCam (UnProject c q) =
           ((fst q - fst (mvCenter c)) * fst (mvInvFocal c),
            (snd q - snd (mvCenter c)) * snd (mvInvFocal c))
    \<and> (fst (mvFocal c) \<noteq> 0 \<and> snd (mvFocal c) \<noteq> 0
         \<and> mvInvFocal c = (1 / fst (mvFocal c), 1 / snd (mvFocal c)) \<longrightarrow>
         mvLastCam (UnProject (Project c p) (mvLastIm (Project c p))) = p
         \<and> mvLastIm (Project (UnProject c q) (mvLastCam (UnProject c q))) = q)
    \<and> Project_traced c p = (Project c p, [])
    \<and> fst (UnProject_traced c q) = UnProject c q
    \<and> 0 \<notin> set (snd (UnProject_traced c q))
    \<and> rtrans_factor_traced 0 r = (1, [])
    \<and> invrtrans_traced 0 r = (r, [])
    \<and> fst (GetProjectionDerivs_traced c) = GetProjectionDerivs c
    \<and> (mdDistortionEnabled c = 0 \<longrightarrow> snd (GetProjectionDerivs_traced c) = [])
    \<and> fst (RefreshParams_distortion_traced c0) = RefreshParams_distortion c0
    \<and> RefreshParams c0 =
        RefreshParams_UFB (RefreshParams_pixel (RefreshParams_radius
          (fst (RefreshParams_distortion_traced (RefreshParams_focal c0)))))
    \<and> (vidx (mpvvCameraParams c0) 4 = 0 \<longrightarrow>
         snd (RefreshParams_distortion_traced c0) = []
         \<and> mdW (RefreshParams c0) = 0 \<and> mdWinv (RefreshParams c0) = 0
         \<and> md2Tan (RefreshParams c0) = 0 \<and> mdDistortionEnabled (RefreshParams c0) = 0)"
proof -
  have P: "mvLastIm (Project c p) =
           (fst (mvCenter c) + fst (mvFocal c) * fst p, snd (mvCenter c) + snd (mvFocal c) * snd p)"
    for p
    using assms by (simp add: Project_cache rtrans_factor_def)
  have U: "mvLastCam (UnProject c q) =
           ((fst q - fst (mvCenter c)) * fst (mvInvFocal c),
            (snd q - snd (mvCenter c)) * snd (mvInvFocal c))"
    if "mdW c = 0" for c :: ATANCamera and q
    using UnProject_pinhole(2) [OF that] by (simp add: UnProject_cache(2))
  have inv: "mvLastCam (UnProject (Project c p) (mvLastIm (Project c p))) = p
         \<and> mvLastIm (Project (UnProject c q) (mvLastCam (UnProject c q))) = q"
    if "fst (mvFocal c) \<noteq> 0" "snd (mvFocal c) \<noteq> 0"
      "mvInvFocal c = (1 / fst (mvFocal c), 1 / snd (mvFocal c))"
  proof -
    have "mdW (Project c p) = 0" using assms by (simp add: Project_frame)
    then have "mvLastCam (UnProject (Project c p) (mvLastIm (Project c p))) = p"
      using that by (simp add: U P Project_frame)
    moreover have "mdW (UnProject c q) = 0" using assms by (simp add: UnProject_frame)
    then have "mvLastIm (Project (UnProject c q) (mvLastCam (UnProject c q))) = q"
      using that assms
      by (simp add: Project_cache rtrans_factor_def UnProject_frame U [OF assms])
    ultimately show ?thesis by blast
  qed
  have D0: "rtrans_factor_traced 0 r = (1, [])" "invrtrans_traced 0 r = (r, [])"
    by (simp_all add: rtrans_factor_traced_def invrtrans_traced_def)
  have "snd (Project_traced c p) = []"
    using assms by (simp add: Project_traced_def Let_def rtrans_factor_traced_def)
  then have D1: "Project_traced c p = (Project c p, [])"
    using Project_traced_value [of c p] by (simp add: prod_eq_iff)
  have D2: "0 \<notin> set (snd (UnProject_traced c q))"
    using assms UnProject_pinhole(1) [OF assms, of q]
    by (simp add: UnProject_traced_divisors invrtrans_traced_def)
  have D3: "mdDistortionEnabled c = 0 \<Longrightarrow> snd (GetProjectionDerivs_traced c) = []"
    by (simp add: GetProjectionDerivs_traced_def Let_def)
  have R: "vidx (mpvvCameraParams c0) 4 = 0 \<Longrightarrow>
         snd (RefreshParams_distortion_traced c0) = []
         \<and> mdW (RefreshParams c0) = 0 \<and> mdWinv (RefreshParams c0) = 0
         \<and> md2Tan (RefreshParams c0) = 0 \<and> mdDistortionEnabled (RefreshParams c0) = 0"
    by (simp add: RefreshParams_fields RefreshParams_distortion_traced_def Let_def)
  have C: "RefreshParams c0 =
        RefreshParams_UFB (RefreshParams_pixel (RefreshParams_radius
          (fst (RefreshParams_distortion_traced (RefreshParams_focal c0)))))"
    by (simp add: RefreshParams_def RefreshParams_distortion_traced_value)
  show ?thesis
    using P [of p] U [OF assms, of q] inv D0 D1 D2 D3 R C UnProject_traced_value [of c q]
      GetProjectionDerivs_traced_value [of c] RefreshParams_distortion_traced_value [of c0]
    by blast
qed

theorem zero_distortion_is_pinhole_witness:
  "mdW (DisableRadialDistortion default_camera) = 0
   \<and> mvLastIm (Project (DisableRadialDistortion default_camera) (1, 0)) = (639.5, 239.5)
   \<and> mvLastCam (UnProject (DisableRadialDistortion default_camera) (639.5, 239.5)) = (1, 0)
   \<and> mvLastCam (UnProject (Project (DisableRadialDistortion default_camera) (1, 0))
        (mvLastIm (Project (DisableRadialDistortion default_camera) (1, 0)))) = (1, 0)
   \<and> snd (Project_traced (DisableRadialDistortion default_camera) (1, 0)) = []
   \<and> snd (UnProject_traced (DisableRadialDistortion default_camera) (639.5, 239.5)) = [1, 1]
   \<and> snd (RefreshParams_distortion_traced (DisableRadialDistortion default_camera)) = []
   \<and> snd (RefreshParams_distortion_traced default_camera)
       = [2, 2 * tan (7 / 200), 7 / 100]"
proof -
  let ?c = "DisableRadialDistortion default_camera"
  have h: "mdW ?c = 0" by (simp add: DisableRadialDistortion_fields)
  note T = zero_distortion_is_pinhole [OF h, of "(1, 0)" "(639.5, 239.5)" 0 ?c]
  have f: "fst (mvFocal ?c) \<noteq> 0 \<and> snd (mvFocal ?c) \<noteq> 0
         \<and> mvInvFocal ?c = (1 / fst (mvFocal ?c), 1 / snd (mvFocal ?c))"
    by (simp add: DisableRadialDistortion_fields)
  have p4: "vidx (mpvvCameraParams ?c) 4 = 0"
    by (simp add: DisableRadialDistortion_fields)
  have a: "mvLastIm (Project ?c (1, 0)) = (639.5, 239.5)"
    using T by (simp add: DisableRadialDistortion_fields)
  have b: "mvLastCam (UnProject ?c (639.5, 239.5)) = (1, 0)"
    using T by (simp add: DisableRadialDistortion_fields)
  have d: "mvLastCam (UnProject (Project ?c (1, 0)) (mvLastIm (Project ?c (1, 0)))) = (1, 0)"
    using T f by blast
  have e: "snd (Project_traced ?c (1, 0)) = []" using T by simp
  have g: "snd (RefreshParams_distortion_traced ?c) = []" using T p4 by blast
  have u: "snd (UnProject_traced ?c (639.5, 239.5)) = [1, 1]"
  proof -
    have "mvLastDistCam (UnProject ?c (639.5, 239.5)) = (1, 0)"
      by (simp add: UnProject_cache(2) DisableRadialDistortion_fields)
    then have "mdLastDistR (UnProject ?c (639.5, 239.5)) = 1"
      by (simp add: UnProject_cache(3))
    then show ?thesis
      using UnProject_pinhole(1) [OF h, of "(639.5, 239.5)"] h
      by (simp add: UnProject_traced_divisors invrtrans_traced_def)
  qed
  have v: "snd (RefreshParams_distortion_traced default_camera)
       = [2, 2 * tan (7 / 200), 7 / 100]"
    by (simp add: RefreshParams_distortion_traced_def Let_def tdiv_def default_camera_params)
  show ?thesis using h a b d e g u v by blast
qed

text \<open>
  Claim C8. With the default parameters \<open>(0.5, 0.8, 0.5, 0.5, 0.07)\<close> and the image size
  640x480, whatever the members held before construction, \<^verbatim>\<open>Project((0,0))\<close> is
  \<open>(0.5 \<sqdot> 640 - 0.5, 0.5 \<sqdot> 480 - 0.5) = (319.5, 239.5)\<close>, and \<^verbatim>\<open>UnProject\<close> of that pixel
  is \<open>(0, 0)\<close>: right after that projection, right after construction, and after the
  projection of any other point \<open>p2\<close> or the unprojection of any other pixel \<open>q2\<close>, when
  the members of the last operation hold something else.
\<close>

theorem default_parameters_origin_projects_to_principal_point:
  "mvLastIm (Project (ATANCamera_ctor raw mvDefaultParams (640, 480)) (0, 0))
     = (0.5 * 640 - 0.5, 0.5 * 480 - 0.5)
   \<and> mvLastIm (Project (ATANCamera_ctor raw mvDefaultParams (640, 480)) (0, 0)) = (319.5, 239.5)
   \<and> mvLastCam (UnProject (Project (ATANCamera_ctor raw mvDefaultParams (640, 480)) (0, 0))
                  (319.5, 239.5)) = (0, 0)
   \<and> mvLastCam (UnProject (ATANCamera_ctor raw mvDefaultParams (640, 480)) (319.5, 239.5))
       = (0, 0)
   \<and> mvLastCam (UnProject (Project (ATANCamera_ctor raw mvDefaultParams (640, 480)) p2)
                  (319.5, 239.5)) = (0, 0)
   \<and> mvLastCam (UnProject (UnProject (ATANCamera_ctor raw mvDefaultParams (640, 480)) q2)
                  (319.5, 239.5)) = (0, 0)
   \<and> mvLastIm (Project (Project (ATANCamera_ctor raw mvDefaultParams (640, 480)) p2) (0, 0))
       = (319.5, 239.5)
   \<and> mvLastIm (Project (UnProject (ATANCamera_ctor raw mvDefaultParams (640, 480)) q2) (0, 0))
       = (319.5, 239.5)
   \<and> mvLastCam (Project (ATANCamera_ctor raw mvDefaultParams (640, 480)) (1, 0)) = (1, 0)"
  by (simp add: ATANCamera_ctor_def Project_cache Project_frame UnProject_cache UnProject_frame
        RefreshParams_fields mvDefaultParams_def vscale_def)

end
